theory Spec2Isabelle
  imports Main "HOL-Library.Sublist"
begin

section \<open>Go library functions used by the deployers\<close>

text \<open>
  Go strings and byte slices are sequences of bytes: \<^typ>\<open>string\<close>.
  \<open>bytes.Contains(b, sub)\<close> reports whether \<open>sub\<close> occurs in \<open>b\<close> as a
  contiguous run.
\<close>

fun bytes_Contains :: "string \<Rightarrow> string \<Rightarrow> bool" where
  "bytes_Contains [] sub = (sub = [])"
| "bytes_Contains (b # bs) sub = (take (length sub) (b # bs) = sub \<or> bytes_Contains bs sub)"

text \<open>\<open>strconv.Itoa\<close>: the decimal representation of an integer.\<close>

fun digits :: "nat \<Rightarrow> string" where
  "digits n = (if n < 10 then [char_of (48 + n)]
               else digits (n div 10) @ [char_of (48 + n mod 10)])"

declare digits.simps [simp del]

definition strconv_Itoa :: "int \<Rightarrow> string" where
  "strconv_Itoa i = (if i < 0 then CHR ''-'' # digits (nat (- i)) else digits (nat i))"

text \<open>
  \<open>path.Join\<close> (and \<open>filepath.Join\<close> on a slash-separated platform): the non-empty
  elements joined by a slash and then cleaned; the empty string when every element is
  empty. \<open>path.Clean\<close> drops empty and \<open>.\<close> elements, cancels an inner \<open>..\<close> against
  the element before it, drops a \<open>..\<close> that begins a rooted path, and returns \<open>.\<close>
  instead of the empty string.
\<close>

fun split_slash :: "string \<Rightarrow> string list" where
  "split_slash [] = [[]]"
| "split_slash (c # cs) =
     (if c = CHR ''/'' then [] # split_slash cs
      else (case split_slash cs of [] \<Rightarrow> [[c]] | w # ws \<Rightarrow> (c # w) # ws))"

definition clean_step :: "bool \<Rightarrow> string list \<Rightarrow> string \<Rightarrow> string list" where
  "clean_step rooted st c =
     (if c = '''' \<or> c = ''.'' then st
      else if c = ''..'' then
        (case st of
           [] \<Rightarrow> if rooted then [] else [''..'']
         | t # ts \<Rightarrow> if t = ''..'' then ''..'' # t # ts else ts)
      else c # st)"

fun join_slash :: "string list \<Rightarrow> string" where
  "join_slash [] = ''''"
| "join_slash [x] = x"
| "join_slash (x # y # ys) = x @ ''/'' @ join_slash (y # ys)"

definition path_Clean :: "string \<Rightarrow> string" where
  "path_Clean p =
     (if p = '''' then ''.''
      else
        (let rooted = (hd p = CHR ''/'');
             st = rev (foldl (clean_step rooted) [] (split_slash p));
             out = (if rooted then ''/'' else '''') @ join_slash st
         in if out = '''' then ''.'' else out))"

definition path_Join :: "string list \<Rightarrow> string" where
  "path_Join elem =
     (if concat elem = '''' then ''''
      else path_Clean (join_slash (filter (\<lambda>e. e \<noteq> '''') elem)))"

section \<open>External effects\<close>

text \<open>
  Everything the deployers do is a call to the outside: a subprocess run to completion
  (\<open>process.ExecJUnit\<close>, or \<open>process.ExecJUnitContext\<close> when a context is given), a
  subprocess whose standard output is captured (\<open>cmd.Output()\<close>), the separate steps
  \<open>StdoutPipe\<close>, \<open>Start\<close> and \<open>Wait\<close> of a command, \<open>ioutil.TempDir\<close> and
  \<open>ioutil.WriteFile\<close>. The first argument of a subprocess call is the context the
  command was created with (\<open>exec.CommandContext\<close>, \<open>ExecJUnitContext\<close>),
  identified by its timeout in nanoseconds, or \<open>None\<close> for a command created
  without a context (\<open>exec.Command\<close>, \<open>ExecJUnit\<close>). What happens when the
  timeout elapses is up to the outside world. The process environment
  \<open>os.Environ()\<close> passed to the runner is the same in every call and is left out,
  and so are the progress messages written with \<open>println\<close>.
\<close>

datatype call =
    Exec "int option" string "string list"
  | Output "int option" string "string list"
  | StdoutPipe "int option" string "string list"
  | Start "int option" string "string list"
  | Wait "int option" string "string list"
  | TempDir string string
  | WriteFile string string nat

text \<open>
  What a call gives back: success with the bytes it produced (the captured standard
  output of \<open>Output\<close>, the directory of \<open>TempDir\<close>, nothing otherwise), an
  \<open>*exec.ExitError\<close> (the process ran and exited unsuccessfully) with the standard
  output and the standard error captured so far, or any other error.
\<close>

datatype outcome =
    Success string
  | ExitError string string
  | OtherError string

datatype error =
    CallError call outcome
  | QueryError string string outcome
  | ParseDurationError string

text \<open>
  The outside world is a state \<open>'w\<close> and a function \<open>sys\<close> that answers a call in a
  state and gives the next state. A run threads the world through its calls and logs
  every call with its outcome, in order.
\<close>

record 'w state =
  world :: 'w
  log :: "(call \<times> outcome) list"

type_synonym 'w system = "'w \<Rightarrow> call \<Rightarrow> outcome \<times> 'w"

definition start_state :: "'w \<Rightarrow> 'w state" where
  "start_state w = \<lparr>world = w, log = []\<rparr>"

definition perform :: "'w system \<Rightarrow> call \<Rightarrow> 'w state \<Rightarrow> outcome \<times> 'w state" where
  "perform sys c s =
     (case sys (world s) c of
        (r, w') \<Rightarrow> (r, \<lparr>world = w', log = log s @ [(c, r)]\<rparr>))"

definition succeeded :: "outcome \<Rightarrow> bool" where
  "succeeded r = (case r of Success _ \<Rightarrow> True | _ \<Rightarrow> False)"

text \<open>
  A call that only reports an error gives \<open>nil\<close> exactly when it succeeded.
  \<open>process.ExecJUnit(cmd, args, env)\<close> and \<open>process.ExecJUnitContext(ctx, cmd, args,
  env)\<close> run the command to completion.
\<close>

definition attempt :: "'w system \<Rightarrow> call \<Rightarrow> 'w state \<Rightarrow> error option \<times> 'w state" where
  "attempt sys c s =
     (case perform sys c s of
        (r, s') \<Rightarrow> (if succeeded r then None else Some (CallError c r), s'))"

definition ExecJUnitContext ::
  "'w system \<Rightarrow> int option \<Rightarrow> string \<Rightarrow> string list \<Rightarrow> 'w state \<Rightarrow> error option \<times> 'w state" where
  "ExecJUnitContext sys ctx cmd args s = attempt sys (Exec ctx cmd args) s"

definition ExecJUnit ::
  "'w system \<Rightarrow> string \<Rightarrow> string list \<Rightarrow> 'w state \<Rightarrow> error option \<times> 'w state" where
  "ExecJUnit sys cmd args s = ExecJUnitContext sys None cmd args s"

section \<open>The kind deployer (kubetest2-kind/deployer/deployer.go)\<close>

text \<open>
  \<open>types.Options\<close> is an interface of the harness; the deployer reads
  \<open>ShouldBuild()\<close> and \<open>ArtifactsDir()\<close> from it. The field \<open>verbosity\<close> is
  a Go \<open>int\<close>; it is only compared with zero and printed, so it is an \<open>int\<close> here.
\<close>

record Options =
  ShouldBuild :: bool
  ArtifactsDir :: string

record Deployer =
  commonOptions :: Options
  nodeImage :: string
  ClusterName :: string
  logLevel :: string
  logsDir :: string
  buildType :: string
  configPath :: string
  kubeconfigPath :: string
  kubeRoot :: string
  verbosity :: int

definition kindDefaultBuiltImageName :: string where
  "kindDefaultBuiltImageName = ''kindest/node:latest''"

subsection \<open>Flags\<close>

text \<open>
  \<open>bindFlags\<close> registers each flag with the address of the field it writes, its name and
  its default. Registering a flag stores the default in the field; parsing a command
  line stores each given value in the field its flag was registered with, in the order
  of the command line. A command line is the list of its flags with their values, already
  converted to the type of the flag.
\<close>

datatype field =
    F_nodeImage | F_ClusterName | F_logLevel | F_buildType
  | F_configPath | F_kubeconfigPath | F_kubeRoot | F_verbosity

datatype flag_value = StringValue string | IntValue int | BoolValue bool

record 'f flag =
  target :: 'f
  name :: string
  default_value :: flag_value

definition StringVar :: "'f \<Rightarrow> string \<Rightarrow> string \<Rightarrow> 'f flag" where
  "StringVar p n v = \<lparr>target = p, name = n, default_value = StringValue v\<rparr>"

definition IntVar :: "'f \<Rightarrow> string \<Rightarrow> int \<Rightarrow> 'f flag" where
  "IntVar p n v = \<lparr>target = p, name = n, default_value = IntValue v\<rparr>"

definition BoolVar :: "'f \<Rightarrow> string \<Rightarrow> bool \<Rightarrow> 'f flag" where
  "BoolVar p n v = \<lparr>target = p, name = n, default_value = BoolValue v\<rparr>"

definition kind_bindFlags :: "field flag list" where
  "kind_bindFlags =
     [ StringVar F_ClusterName ''cluster-name'' ''kind-kubetest2'',
       StringVar F_logLevel ''loglevel'' '''',
       StringVar F_nodeImage ''image-name'' '''',
       StringVar F_nodeImage ''build-type'' '''',
       StringVar F_configPath ''config'' '''',
       StringVar F_kubeconfigPath ''kubeconfig'' '''',
       StringVar F_kubeRoot ''kube-root'' '''',
       IntVar F_verbosity ''verbosity'' 0 ]"

text \<open>Writing a value through the pointer a flag was registered with.\<close>

definition store :: "field \<Rightarrow> flag_value \<Rightarrow> Deployer \<Rightarrow> Deployer option" where
  "store p v d =
     (case v of
        StringValue x \<Rightarrow>
          (case p of
             F_nodeImage \<Rightarrow> Some (d\<lparr>nodeImage := x\<rparr>)
           | F_ClusterName \<Rightarrow> Some (d\<lparr>ClusterName := x\<rparr>)
           | F_logLevel \<Rightarrow> Some (d\<lparr>logLevel := x\<rparr>)
           | F_buildType \<Rightarrow> Some (d\<lparr>buildType := x\<rparr>)
           | F_configPath \<Rightarrow> Some (d\<lparr>configPath := x\<rparr>)
           | F_kubeconfigPath \<Rightarrow> Some (d\<lparr>kubeconfigPath := x\<rparr>)
           | F_kubeRoot \<Rightarrow> Some (d\<lparr>kubeRoot := x\<rparr>)
           | F_verbosity \<Rightarrow> None)
      | IntValue i \<Rightarrow> (case p of F_verbosity \<Rightarrow> Some (d\<lparr>verbosity := i\<rparr>) | _ \<Rightarrow> None)
      | BoolValue b \<Rightarrow> None)"

fun register :: "('f \<Rightarrow> flag_value \<Rightarrow> 'd \<Rightarrow> 'd option) \<Rightarrow> 'f flag list \<Rightarrow> 'd \<Rightarrow> 'd" where
  "register st [] d = d"
| "register st (f # fs) d =
     (case st (target f) (default_value f) d of
        None \<Rightarrow> register st fs d
      | Some d' \<Rightarrow> register st fs d')"

fun lookup_flag :: "'f flag list \<Rightarrow> string \<Rightarrow> 'f flag option" where
  "lookup_flag [] n = None"
| "lookup_flag (f # fs) n = (if name f = n then Some f else lookup_flag fs n)"

text \<open>
  Parsing stops with an error (\<open>None\<close>) at a flag that was not registered or a value
  of the wrong type.
\<close>

fun Parse ::
  "('f \<Rightarrow> flag_value \<Rightarrow> 'd \<Rightarrow> 'd option) \<Rightarrow> 'f flag list \<Rightarrow> (string \<times> flag_value) list
     \<Rightarrow> 'd \<Rightarrow> 'd option" where
  "Parse st flags [] d = Some d"
| "Parse st flags ((n, v) # rest) d =
     (case lookup_flag flags n of
        None \<Rightarrow> None
      | Some f \<Rightarrow>
          (case st (target f) v d of
             None \<Rightarrow> None
           | Some d' \<Rightarrow> Parse st flags rest d'))"

definition kind_zero :: "Options \<Rightarrow> Deployer" where
  "kind_zero opts =
     \<lparr>commonOptions = opts, nodeImage = '''', ClusterName = '''', logLevel = '''',
      logsDir = path_Join [ArtifactsDir opts, ''logs''], buildType = '''',
      configPath = '''', kubeconfigPath = '''', kubeRoot = '''', verbosity = 0\<rparr>"

definition kind_New :: "Options \<Rightarrow> Deployer" where
  "kind_New opts = register store kind_bindFlags (kind_zero opts)"

text \<open>The deployer the harness drives: \<open>New\<close>, then the command line parsed into it.\<close>

definition kind_from_flags :: "Options \<Rightarrow> (string \<times> flag_value) list \<Rightarrow> Deployer option" where
  "kind_from_flags opts cmdline = Parse store kind_bindFlags cmdline (kind_New opts)"

subsection \<open>Argument vectors and verbs\<close>

definition kind_Up_args :: "Deployer \<Rightarrow> string list" where
  "kind_Up_args d =
     [''create'', ''cluster'', ''--name'', ClusterName d]
     @ (if logLevel d \<noteq> '''' then [''--loglevel'', logLevel d] else [])
     @ (if nodeImage d \<noteq> '''' then [''--image'', nodeImage d]
        else if ShouldBuild (commonOptions d) then [''--image'', kindDefaultBuiltImageName]
        else [])
     @ (if configPath d \<noteq> '''' then [''--config'', configPath d] else [])
     @ (if kubeconfigPath d \<noteq> '''' then [''--kubeconfig'', kubeconfigPath d] else [])
     @ (if verbosity d > 0 then [''--verbosity'', strconv_Itoa (verbosity d)] else [])"

definition kind_Up :: "'w system \<Rightarrow> Deployer \<Rightarrow> 'w state \<Rightarrow> error option \<times> 'w state" where
  "kind_Up sys d s = ExecJUnit sys ''kind'' (kind_Up_args d) s"

definition kind_Down_args :: "Deployer \<Rightarrow> string list" where
  "kind_Down_args d =
     [''delete'', ''cluster'', ''--name'', ClusterName d]
     @ (if logLevel d \<noteq> '''' then [''--loglevel'', logLevel d] else [])"

definition kind_Down :: "'w system \<Rightarrow> Deployer \<Rightarrow> 'w state \<Rightarrow> error option \<times> 'w state" where
  "kind_Down sys d s = ExecJUnit sys ''kind'' (kind_Down_args d) s"

definition kind_Build_args :: "Deployer \<Rightarrow> string list" where
  "kind_Build_args d =
     [''build'', ''node-image'']
     @ (if logLevel d \<noteq> '''' then [''--loglevel'', logLevel d] else [])
     @ (if buildType d \<noteq> '''' then [''--type'', buildType d] else [])
     @ (if kubeRoot d \<noteq> '''' then [''--kube-root'', kubeRoot d] else [])
     @ (if nodeImage d \<noteq> '''' then [''--image'', nodeImage d]
        else if ShouldBuild (commonOptions d) then [''--image'', kindDefaultBuiltImageName]
        else [])"

definition kind_Build :: "'w system \<Rightarrow> Deployer \<Rightarrow> 'w state \<Rightarrow> error option \<times> 'w state" where
  "kind_Build sys d s = ExecJUnit sys ''kind'' (kind_Build_args d) s"

section \<open>The capi deployer (the composite deployer)\<close>

text \<open>
  The source holds two versions of this package. The one modelled here is the later one
  (\<open>unnamed/part_001\<close>), with the timeout of \<open>Up\<close>, the workload cluster name,
  the cached kubeconfig and the deletion of the cluster object in \<open>Down\<close>; line
  numbers are those of that file.
\<close>

record deployer =
  kind :: Deployer
  provider :: string
  kubernetesVersion :: string
  controlPlaneCount :: string
  workerCount :: string
  flavor :: string
  useExistingCluster :: bool
  installCalico :: bool
  kubecfgPath :: string
  upTimeout :: string
  workloadClusterName :: string

subsection \<open>Flags\<close>

datatype capi_field =
    F_provider | F_kubernetesVersion | F_controlPlaneCount | F_workerCount | F_flavor
  | F_useExistingCluster | F_upTimeout | F_installCalico | F_workloadClusterName

definition capi_bindFlags :: "capi_field flag list" where
  "capi_bindFlags =
     [ StringVar F_provider ''provider'' '''',
       StringVar F_kubernetesVersion ''kubernetes-version'' '''',
       StringVar F_controlPlaneCount ''control-plane-machine-count'' ''1'',
       StringVar F_workerCount ''worker-machine-count'' ''1'',
       StringVar F_flavor ''flavor'' '''',
       BoolVar F_useExistingCluster ''use-existing-cluster'' False,
       StringVar F_upTimeout ''up-timeout'' ''30m'',
       BoolVar F_installCalico ''install-calico'' False,
       StringVar F_workloadClusterName ''workload-cluster-name'' ''capi-workload-cluster'' ]"

definition capi_store :: "capi_field \<Rightarrow> flag_value \<Rightarrow> deployer \<Rightarrow> deployer option" where
  "capi_store p v d =
     (case v of
        StringValue x \<Rightarrow>
          (case p of
             F_provider \<Rightarrow> Some (d\<lparr>provider := x\<rparr>)
           | F_kubernetesVersion \<Rightarrow> Some (d\<lparr>kubernetesVersion := x\<rparr>)
           | F_controlPlaneCount \<Rightarrow> Some (d\<lparr>controlPlaneCount := x\<rparr>)
           | F_workerCount \<Rightarrow> Some (d\<lparr>workerCount := x\<rparr>)
           | F_flavor \<Rightarrow> Some (d\<lparr>flavor := x\<rparr>)
           | F_upTimeout \<Rightarrow> Some (d\<lparr>upTimeout := x\<rparr>)
           | F_workloadClusterName \<Rightarrow> Some (d\<lparr>workloadClusterName := x\<rparr>)
           | _ \<Rightarrow> None)
      | BoolValue b \<Rightarrow>
          (case p of
             F_useExistingCluster \<Rightarrow> Some (d\<lparr>useExistingCluster := b\<rparr>)
           | F_installCalico \<Rightarrow> Some (d\<lparr>installCalico := b\<rparr>)
           | _ \<Rightarrow> None)
      | IntValue i \<Rightarrow> None)"

text \<open>
  \<open>New\<close> takes the kind deployer and its flag set from \<open>kinddeployer.New\<close> and adds
  its own flags to that set: a flag of the set writes a field of the kind deployer or a
  field of the capi deployer.
\<close>

definition all_flags :: "(field + capi_field) flag list" where
  "all_flags =
     map (\<lambda>f. \<lparr>target = Inl (target f), name = name f, default_value = default_value f\<rparr>)
       kind_bindFlags
     @ map (\<lambda>f. \<lparr>target = Inr (target f), name = name f, default_value = default_value f\<rparr>)
         capi_bindFlags"

definition store_any :: "field + capi_field \<Rightarrow> flag_value \<Rightarrow> deployer \<Rightarrow> deployer option" where
  "store_any p v d =
     (case p of
        Inl f \<Rightarrow> (case store f v (kind d) of None \<Rightarrow> None | Some k \<Rightarrow> Some (d\<lparr>kind := k\<rparr>))
      | Inr f \<Rightarrow> capi_store f v d)"

definition capi_New :: "Options \<Rightarrow> deployer" where
  "capi_New opts =
     register store_any all_flags
       \<lparr>kind = kind_zero opts, provider = '''', kubernetesVersion = '''',
        controlPlaneCount = '''', workerCount = '''', flavor = '''',
        useExistingCluster = False, installCalico = False, kubecfgPath = '''',
        upTimeout = '''', workloadClusterName = ''''\<rparr>"

definition capi_from_flags :: "Options \<Rightarrow> (string \<times> flag_value) list \<Rightarrow> deployer option" where
  "capi_from_flags opts cmdline = Parse store_any all_flags cmdline (capi_New opts)"

subsection \<open>Kubeconfig\<close>

text \<open>
  The method writes \<open>d.kubecfgPath\<close>, so it returns the deployer with the result. The
  file mode \<open>0600\<close> is 384.
\<close>

definition capi_Kubeconfig ::
  "'w system \<Rightarrow> deployer \<Rightarrow> 'w state \<Rightarrow> (error + string) \<times> deployer \<times> 'w state" where
  "capi_Kubeconfig sys d s =
     (if kubecfgPath d \<noteq> '''' then (Inr (kubecfgPath d), d, s)
      else
        (case perform sys (TempDir '''' ''kubetest2-capi'') s of
           (r1, s1) \<Rightarrow>
             (case r1 of
                Success tmpdir \<Rightarrow>
                  (let d1 = d\<lparr>kubecfgPath := path_Join [tmpdir, ''kubeconfig.yaml'']\<rparr>;
                       args = [''get'', ''kubeconfig'', workloadClusterName d1]
                   in (case perform sys (Output None ''clusterctl'' args) s1 of
                         (r2, s2) \<Rightarrow>
                           (case r2 of
                              Success lines \<Rightarrow>
                                (case attempt sys (WriteFile (kubecfgPath d1) lines 384) s2 of
                                   (Some e, s3) \<Rightarrow> (Inl e, d1, s3)
                                 | (None, s3) \<Rightarrow> (Inr (kubecfgPath d1), d1, s3))
                            | _ \<Rightarrow> (Inl (CallError (Output None ''clusterctl'' args) r2), d1, s2))))
              | _ \<Rightarrow> (Inl (CallError (TempDir '''' ''kubetest2-capi'') r1), d, s1))))"

subsection \<open>Up\<close>

text \<open>
  \<open>if err := f(); err != nil { return err }\<close> followed by the rest of the method.
\<close>

definition check ::
  "error option \<times> 'w state \<Rightarrow> deployer
     \<Rightarrow> ('w state \<Rightarrow> error option \<times> deployer \<times> 'w state)
     \<Rightarrow> error option \<times> deployer \<times> 'w state" where
  "check r d rest = (case r of (Some e, s') \<Rightarrow> (Some e, d, s') | (None, s') \<Rightarrow> rest s')"

definition calico_url :: string where
  "calico_url = ''https://docs.projectcalico.org/v3.12/manifests/calico.yaml''"

text \<open>Lines 213 to 228: the optional CNI install, then \<open>return nil\<close>.\<close>

definition Up_calico ::
  "'w system \<Rightarrow> int option \<Rightarrow> deployer \<Rightarrow> 'w state \<Rightarrow> error option \<times> deployer \<times> 'w state" where
  "Up_calico sys ctx d s =
     (if installCalico d then
        (case capi_Kubeconfig sys d s of
           (Inl e, d', s') \<Rightarrow> (Some e, d', s')
         | (Inr kubeconfig, d', s') \<Rightarrow>
             check (ExecJUnitContext sys ctx ''kubectl''
                      [''--kubeconfig'', kubeconfig, ''apply'', ''-f'', calico_url] s') d'
               (\<lambda>s. check (ExecJUnitContext sys ctx ''kubectl''
                              [''--kubeconfig'', kubeconfig, ''wait'',
                               ''--for=condition=Available'', ''--all'', ''--all-namespaces'',
                               ''deployment'', ''--timeout=-1m''] s) d'
                       (\<lambda>s. (None, d', s))))
      else (None, d, s))"

text \<open>Lines 208 to 212: wait for the workload cluster to be ready.\<close>

definition wait_ready_args :: "deployer \<Rightarrow> string list" where
  "wait_ready_args d =
     [''wait'', ''--for=condition=Ready'', ''cluster/'' @ workloadClusterName d,
      ''--timeout=-1m'']"

definition Up_ready ::
  "'w system \<Rightarrow> int option \<Rightarrow> deployer \<Rightarrow> 'w state \<Rightarrow> error option \<times> deployer \<times> 'w state" where
  "Up_ready sys ctx d s =
     check (ExecJUnitContext sys ctx ''kubectl'' (wait_ready_args d) s) d
       (Up_calico sys ctx d)"

text \<open>Lines 173 to 206: render the manifest and pipe it into the apply command.\<close>

definition config_cluster_args :: "deployer \<Rightarrow> string list" where
  "config_cluster_args d =
     [''config'', ''cluster'', workloadClusterName d,
      ''--infrastructure'', provider d,
      ''--kubernetes-version'', kubernetesVersion d,
      ''--worker-machine-count'', workerCount d,
      ''--control-plane-machine-count'', controlPlaneCount d,
      ''--flavor'', flavor d]"

definition apply_args :: "string list" where
  "apply_args = [''apply'', ''-f'', ''-'']"

definition Up_apply ::
  "'w system \<Rightarrow> int option \<Rightarrow> deployer \<Rightarrow> 'w state \<Rightarrow> error option \<times> deployer \<times> 'w state" where
  "Up_apply sys ctx d s =
     check (attempt sys (StdoutPipe ctx ''clusterctl'' (config_cluster_args d)) s) d
       (\<lambda>s. check (attempt sys (Start ctx ''clusterctl'' (config_cluster_args d)) s) d
       (\<lambda>s. check (attempt sys (Start ctx ''kubectl'' apply_args) s) d
       (\<lambda>s. check (attempt sys (Wait ctx ''clusterctl'' (config_cluster_args d)) s) d
       (\<lambda>s. check (attempt sys (Wait ctx ''kubectl'' apply_args) s) d
       (Up_ready sys ctx d)))))"

text \<open>Lines 167 to 171: wait for the management components.\<close>

definition wait_available_args :: "string list" where
  "wait_available_args =
     [''wait'', ''--for=condition=Available'', ''--all'', ''--all-namespaces'',
      ''deployment'', ''--timeout=-1m'']"

definition Up_wait_capi ::
  "'w system \<Rightarrow> int option \<Rightarrow> deployer \<Rightarrow> 'w state \<Rightarrow> error option \<times> deployer \<times> 'w state" where
  "Up_wait_capi sys ctx d s =
     check (ExecJUnitContext sys ctx ''kubectl'' wait_available_args s) d
       (Up_apply sys ctx d)"

text \<open>Lines 160 to 165: \<open>init\<close> when the query printed nothing.\<close>

definition init_args :: "deployer \<Rightarrow> string list" where
  "init_args d = [''init'', ''--infrastructure'', provider d]"

definition Up_init ::
  "'w system \<Rightarrow> int option \<Rightarrow> deployer \<Rightarrow> string \<Rightarrow> 'w state
     \<Rightarrow> error option \<times> deployer \<times> 'w state" where
  "Up_init sys ctx d lines s =
     (if length lines = 0 then
        check (ExecJUnitContext sys ctx ''clusterctl'' (init_args d) s) d
          (Up_wait_capi sys ctx d)
      else Up_wait_capi sys ctx d s)"

text \<open>Lines 148 to 159: the provider query and the errors it may end with.\<close>

definition providers_args :: "deployer \<Rightarrow> string list" where
  "providers_args d =
     [''get'', ''providers'', ''--all-namespaces'',
      ''--field-selector=metadata.name=infrastructure-'' @ provider d,
      ''--ignore-not-found'']"

definition no_resource_type :: string where
  "no_resource_type = ''the server doesn't have a resource type''"

definition Up_query ::
  "'w system \<Rightarrow> int option \<Rightarrow> deployer \<Rightarrow> 'w state \<Rightarrow> error option \<times> deployer \<times> 'w state" where
  "Up_query sys ctx d s =
     (case perform sys (Output ctx ''kubectl'' (providers_args d)) s of
        (r, s') \<Rightarrow>
          (case r of
             Success lines \<Rightarrow> Up_init sys ctx d lines s'
           | ExitError lines stderr \<Rightarrow>
               (if \<not> bytes_Contains stderr no_resource_type
                then (Some (QueryError lines stderr r), d, s')
                else Up_init sys ctx d lines s')
           | OtherError m \<Rightarrow>
               (Some (CallError (Output ctx ''kubectl'' (providers_args d)) r), d, s')))"

text \<open>
  Lines 133 to 145. \<open>time.ParseDuration\<close> is a parameter: the duration in nanoseconds,
  or \<open>None\<close> for a string it rejects. The context made by \<open>context.WithTimeout\<close> is
  identified by that duration.
\<close>

definition capi_Up ::
  "(string \<Rightarrow> int option) \<Rightarrow> 'w system \<Rightarrow> deployer \<Rightarrow> 'w state
     \<Rightarrow> error option \<times> deployer \<times> 'w state" where
  "capi_Up ParseDuration sys d s =
     (case ParseDuration (upTimeout d) of
        None \<Rightarrow> (Some (ParseDurationError (upTimeout d)), d, s)
      | Some timeout \<Rightarrow>
          (let ctx = Some timeout in
           if \<not> useExistingCluster d then
             check (kind_Up sys (kind d) s) d (Up_query sys ctx d)
           else Up_query sys ctx d s))"

subsection \<open>Down\<close>

definition capi_Down_args :: "deployer \<Rightarrow> string list" where
  "capi_Down_args d =
     [''delete'', ''--ignore-not-found'', ''--wait'', ''cluster'', ClusterName (kind d)]"

definition capi_Down :: "'w system \<Rightarrow> deployer \<Rightarrow> 'w state \<Rightarrow> error option \<times> 'w state" where
  "capi_Down sys d s =
     (case ExecJUnit sys ''kubectl'' (capi_Down_args d) s of
        (Some e, s') \<Rightarrow> (Some e, s')
      | (None, s') \<Rightarrow> kind_Down sys (kind d) s')"

section \<open>Reading a run\<close>

text \<open>
  The calls a run made, in order, and the classes of calls the properties speak of.
\<close>

definition calls :: "'w state \<Rightarrow> call list" where
  "calls s = map fst (log s)"

fun is_init :: "call \<Rightarrow> bool" where
  "is_init (Exec ctx prog args) = (prog = ''clusterctl'' \<and> take 1 args = [''init''])"
| "is_init _ = False"

fun is_get_kubeconfig :: "call \<Rightarrow> bool" where
  "is_get_kubeconfig (Output ctx prog args) =
     (prog = ''clusterctl'' \<and> take 2 args = [''get'', ''kubeconfig''])"
| "is_get_kubeconfig _ = False"

fun is_bootstrap_create :: "call \<Rightarrow> bool" where
  "is_bootstrap_create (Exec ctx prog args) =
     (prog = ''kind'' \<and> take 2 args = [''create'', ''cluster''])"
| "is_bootstrap_create _ = False"

fun is_wait :: "call \<Rightarrow> bool" where
  "is_wait (Wait ctx prog args) = True"
| "is_wait _ = False"

text \<open>The context a subprocess was created with; \<open>None\<close> for a call that is no subprocess.\<close>

fun subprocess_ctx :: "call \<Rightarrow> int option option" where
  "subprocess_ctx (Exec ctx prog args) = Some ctx"
| "subprocess_ctx (Output ctx prog args) = Some ctx"
| "subprocess_ctx (StdoutPipe ctx prog args) = Some ctx"
| "subprocess_ctx (Start ctx prog args) = Some ctx"
| "subprocess_ctx (Wait ctx prog args) = Some ctx"
| "subprocess_ctx (TempDir dir pat) = None"
| "subprocess_ctx (WriteFile p b m) = None"

fun is_provider_query :: "call \<Rightarrow> bool" where
  "is_provider_query (Output ctx prog args) = (prog = ''kubectl'')"
| "is_provider_query _ = False"

text \<open>
  The result of \<open>Up\<close> and the state it ends in; the standard output a command left
  behind, which \<open>Output\<close> returns with or without an error.
\<close>

definition run_error :: "error option \<times> deployer \<times> 'w state \<Rightarrow> error option" where
  "run_error x = fst x"

definition run_log :: "error option \<times> deployer \<times> 'w state \<Rightarrow> (call \<times> outcome) list" where
  "run_log x = log (snd (snd x))"

definition run_calls :: "error option \<times> deployer \<times> 'w state \<Rightarrow> call list" where
  "run_calls x = map fst (run_log x)"

fun stdout_of :: "outcome \<Rightarrow> string" where
  "stdout_of (Success out) = out"
| "stdout_of (ExitError out err) = out"
| "stdout_of (OtherError m) = ''''"

text \<open>
  A failure of the provider query that \<open>Up\<close> lets pass: an exit error whose standard
  error holds the text of a missing resource type.
\<close>

fun tolerated :: "outcome \<Rightarrow> bool" where
  "tolerated (ExitError out err) = bytes_Contains err no_resource_type"
| "tolerated _ = False"

text \<open>
  The five calls of the pipe between \<open>clusterctl config cluster\<close> and
  \<open>kubectl apply -f -\<close>, in the order of the source, and the kinds of calls made
  after them: \<open>kubectl\<close> run with the context of \<open>Up\<close> and with other
  arguments than the wait for the deployments, and the calls of \<open>Kubeconfig\<close>.
\<close>

definition pipe_calls :: "int option \<Rightarrow> deployer \<Rightarrow> call list" where
  "pipe_calls ctx d =
     [StdoutPipe ctx ''clusterctl'' (config_cluster_args d),
      Start ctx ''clusterctl'' (config_cluster_args d),
      Start ctx ''kubectl'' apply_args,
      Wait ctx ''clusterctl'' (config_cluster_args d),
      Wait ctx ''kubectl'' apply_args]"

fun tail_call :: "int option \<Rightarrow> call \<Rightarrow> bool" where
  "tail_call ctx (Exec cx prog args) =
     (cx = ctx \<and> prog = ''kubectl'' \<and> args \<noteq> wait_available_args)"
| "tail_call ctx (Output cx prog args) =
     (cx = None \<and> prog = ''clusterctl'' \<and> take 2 args = [''get'', ''kubeconfig''])"
| "tail_call ctx (TempDir dir pat) = True"
| "tail_call ctx (WriteFile p b m) = True"
| "tail_call ctx _ = False"

text \<open>A list of calls made one after the other, up to the first that fails.\<close>

fun attempt_all :: "'w system \<Rightarrow> call list \<Rightarrow> 'w state \<Rightarrow> error option \<times> 'w state" where
  "attempt_all sys [] s = (None, s)"
| "attempt_all sys (c # cs) s =
     (case attempt sys c s of
        (Some e, s') \<Rightarrow> (Some e, s')
      | (None, s') \<Rightarrow> attempt_all sys cs s')"

text \<open>
  The shape of the part of a run that starts at the provider query: the query; then,
  unless the query ended \<open>Up\<close>, \<open>init\<close> when the query printed nothing and the wait
  for the deployments (\<open>pre\<close>); then a prefix of the calls of the pipe (\<open>mid\<close>); then
  calls of the last two steps (\<open>post\<close>).
\<close>

definition query_onwards ::
  "int option \<Rightarrow> deployer \<Rightarrow> error option \<Rightarrow> (call \<times> outcome) list \<Rightarrow> bool" where
  "query_onwards ctx d e evs =
     (\<exists>r pre mid post.
        evs = (Output ctx ''kubectl'' (providers_args d), r) # pre @ mid @ post
      \<and> prefix (map fst mid) (pipe_calls ctx d)
      \<and> (\<forall>ev\<in>set post. tail_call ctx (fst ev))
      \<and> (\<forall>ev\<in>set mid. \<not> succeeded (snd ev) \<longrightarrow> e \<noteq> None)
      \<and> (if succeeded r \<or> tolerated r
          then (stdout_of r = '''' \<and>
                  (map fst pre = [Exec ctx ''clusterctl'' (init_args d)] \<and> mid = [] \<and> post = []
                   \<or> map fst pre = [Exec ctx ''clusterctl'' (init_args d),
                                     Exec ctx ''kubectl'' wait_available_args]))
             \<or> (stdout_of r \<noteq> '''' \<and> map fst pre = [Exec ctx ''kubectl'' wait_available_args])
          else pre = [] \<and> mid = [] \<and> post = [] \<and> e \<noteq> None))"

text \<open>
  The shape of the part of a run that follows a successful wait for the deployments:
  calls of the pipe, in order, each made after the one before it succeeded (\<open>mid\<close>);
  when the last of them failed, nothing more and its error as the result; when all five
  succeeded, the wait for the workload cluster and what follows it (\<open>post\<close>). And the
  shape of the part of a run that starts at the wait for the deployments.
\<close>

definition pipe_run ::
  "int option \<Rightarrow> deployer \<Rightarrow> error option \<Rightarrow> (call \<times> outcome) list \<Rightarrow> bool" where
  "pipe_run ctx d e evs =
     (\<exists>mid post.
        evs = mid @ post \<and> mid \<noteq> []
      \<and> prefix (map fst mid) (pipe_calls ctx d)
      \<and> (\<forall>ev\<in>set (butlast mid). succeeded (snd ev))
      \<and> (\<forall>ev\<in>set post. tail_call ctx (fst ev))
      \<and> (if succeeded (snd (last mid))
          then map fst mid = pipe_calls ctx d \<and> post \<noteq> []
             \<and> fst (hd post) = Exec ctx ''kubectl'' (wait_ready_args d)
          else post = [] \<and> e = Some (CallError (fst (last mid)) (snd (last mid)))))"

definition from_wait ::
  "int option \<Rightarrow> deployer \<Rightarrow> error option \<Rightarrow> (call \<times> outcome) list \<Rightarrow> bool" where
  "from_wait ctx d e evs =
     (\<exists>r rest.
        evs = (Exec ctx ''kubectl'' wait_available_args, r) # rest
      \<and> (\<forall>ev\<in>set rest. fst ev \<noteq> Exec ctx ''kubectl'' wait_available_args)
      \<and> (if succeeded r then pipe_run ctx d e rest else rest = [] \<and> e \<noteq> None))"

section \<open>Concrete inputs\<close>

text \<open>
  The options of a run that builds nothing, a duration parser that knows the default
  \<open>30m\<close>, and some outside worlds: one where every call succeeds and prints nothing,
  and others where one kind of call fails.
\<close>

definition default_opts :: Options where
  "default_opts = \<lparr>ShouldBuild = False, ArtifactsDir = ''_artifacts''\<rparr>"

definition parse_30m :: "string \<Rightarrow> int option" where
  "parse_30m s = (if s = ''30m'' then Some 1800000000000 else None)"

definition always_ok :: "unit system" where
  "always_ok w c = (Success '''', w)"

definition kubectl_fails :: "unit system" where
  "kubectl_fails w c =
     (case c of
        Exec ctx prog args \<Rightarrow>
          if prog = ''kubectl'' then (ExitError '''' ''error: timed out'', w)
          else (Success '''', w)
      | _ \<Rightarrow> (Success '''', w))"

definition get_kubeconfig_fails :: "unit system" where
  "get_kubeconfig_fails w c =
     (case c of
        TempDir dir pat \<Rightarrow> (Success ''/tmp/kubetest2-capi123'', w)
      | Output ctx prog args \<Rightarrow> (ExitError '''' ''Error: cluster not found'', w)
      | _ \<Rightarrow> (Success '''', w))"

definition get_kubeconfig_ok :: "unit system" where
  "get_kubeconfig_ok w c =
     (case c of
        TempDir dir pat \<Rightarrow> (Success ''/tmp/kubetest2-capi123'', w)
      | Output ctx prog args \<Rightarrow> (Success ''apiVersion: v1'', w)
      | _ \<Rightarrow> (Success '''', w))"

text \<open>
  A world where the provider query exits with the error of a missing resource type after
  it has printed a line, one where the \<open>kubectl apply\<close> of the pipe exits with an
  error, and one where the query fails for another reason.
\<close>

definition query_fails_after_output :: "unit system" where
  "query_fails_after_output w c =
     (case c of
        Output ctx prog args \<Rightarrow>
          (ExitError ''NAMESPACE NAME''
             ''error: the server doesn't have a resource type providers'', w)
      | _ \<Rightarrow> (Success '''', w))"

definition query_fails_no_resource :: "unit system" where
  "query_fails_no_resource w c =
     (case c of
        Output ctx prog args \<Rightarrow>
          (ExitError '''' ''error: the server doesn't have a resource type providers'', w)
      | _ \<Rightarrow> (Success '''', w))"

definition query_refused :: "unit system" where
  "query_refused w c =
     (case c of
        Output ctx prog args \<Rightarrow>
          (ExitError '''' ''The connection to the server localhost:8080 was refused'', w)
      | _ \<Rightarrow> (Success '''', w))"

definition query_finds_provider :: "unit system" where
  "query_finds_provider w c =
     (case c of
        Output ctx prog args \<Rightarrow> (Success ''capd-system infrastructure-docker'', w)
      | _ \<Rightarrow> (Success '''', w))"

definition apply_fails :: "unit system" where
  "apply_fails w c =
     (case c of
        Wait ctx prog args \<Rightarrow>
          if prog = ''kubectl'' then (ExitError '''' ''exit status 1'', w)
          else (Success '''', w)
      | _ \<Rightarrow> (Success '''', w))"

text \<open>A world where the bootstrap tool fails.\<close>

definition kind_fails :: "unit system" where
  "kind_fails w c =
     (case c of
        Exec ctx prog args \<Rightarrow>
          if prog = ''kind'' then (ExitError '''' ''ERROR: unknown cluster'', w)
          else (Success '''', w)
      | _ \<Rightarrow> (Success '''', w))"

section \<open>The library functions: checks of the model\<close>

text \<open>
  \<open>bytes_Contains\<close> is the contiguous-sublist relation; \<open>strconv_Itoa\<close> and
  \<open>path_Join\<close> agree with the Go functions on some inputs.
\<close>

lemma take_eq_prefix: "(take (length xs) ys = xs) = prefix xs ys"
proof
  assume "take (length xs) ys = xs"
  then have "xs = take (length xs) ys" by simp
  then show "prefix xs ys" by (metis take_is_prefix)
next
  assume "prefix xs ys"
  then obtain zs where "ys = xs @ zs" by (auto simp: prefix_def)
  then show "take (length xs) ys = xs" by simp
qed

lemma bytes_Contains_sublist: "bytes_Contains b sub = sublist sub b"
  by (induction b) (simp_all add: take_eq_prefix sublist_Cons_right)

lemma strconv_Itoa_examples:
  "strconv_Itoa 0 = ''0''" "strconv_Itoa 7 = ''7''" "strconv_Itoa 42 = ''42''"
  "strconv_Itoa (- 15) = ''-15''"
  by code_simp+

lemma path_Join_examples:
  "path_Join [''_artifacts'', ''logs''] = ''_artifacts/logs''"
  "path_Join ['''', ''kubeconfig.yaml''] = ''kubeconfig.yaml''"
  "path_Join [''/tmp/a/../b/'', ''kubeconfig.yaml''] = ''/tmp/b/kubeconfig.yaml''"
  "path_Join [''/..'', ''x''] = ''/x''"
  "path_Join [''a//b/./c'', ''''] = ''a/b/c''"
  "path_Join [''..'', ''..'', ''x''] = ''../../x''"
  by (simp_all add: path_Join_def path_Clean_def clean_step_def Let_def)

section \<open>Flags: what parsing can and cannot write\<close>

lemma kind_New_simp:
  "kind_New opts = (kind_zero opts)\<lparr>ClusterName := ''kind-kubetest2''\<rparr>"
  by (simp add: kind_New_def kind_bindFlags_def StringVar_def IntVar_def store_def kind_zero_def)

lemma buildType_store:
  "store p v d = Some d' \<Longrightarrow> p \<noteq> F_buildType \<Longrightarrow> buildType d' = buildType d"
  by (auto simp: store_def split: flag_value.splits field.splits)

lemma nodeImage_store:
  "store p v d = Some d' \<Longrightarrow> p \<noteq> F_nodeImage \<Longrightarrow> nodeImage d' = nodeImage d"
  by (auto simp: store_def split: flag_value.splits field.splits)

lemma lookup_flag_Some:
  "lookup_flag fl n = Some f \<Longrightarrow> f \<in> set fl \<and> name f = n"
  by (induction fl) (auto split: if_splits)

lemma kind_flags_no_buildType: "\<forall>f\<in>set kind_bindFlags. target f \<noteq> F_buildType"
  by (simp add: kind_bindFlags_def StringVar_def IntVar_def)

lemma kind_flags_nodeImage:
  "\<forall>f\<in>set kind_bindFlags. target f = F_nodeImage \<longrightarrow>
      name f = ''image-name'' \<or> name f = ''build-type''"
  by (simp add: kind_bindFlags_def StringVar_def IntVar_def)

lemma lookup_build_type:
  "lookup_flag kind_bindFlags ''build-type'' = Some (StringVar F_nodeImage ''build-type'' '''')"
  by (simp add: kind_bindFlags_def StringVar_def IntVar_def)

lemma Parse_Cons_Some:
  assumes "Parse st fl ((n, v) # rest) d = Some d'"
  obtains f d1 where "lookup_flag fl n = Some f" "st (target f) v d = Some d1"
    "Parse st fl rest d1 = Some d'"
  using assms by (auto split: option.splits)

lemma Parse_buildType:
  "Parse store kind_bindFlags cl d = Some d' \<Longrightarrow> buildType d' = buildType d"
proof (induction cl arbitrary: d)
  case Nil
  then show ?case by simp
next
  case (Cons a cl)
  obtain n v where a: "a = (n, v)" by (cases a)
  from Cons.prems(1) have p: "Parse store kind_bindFlags ((n, v) # cl) d = Some d'"
    unfolding a .
  from p obtain f d1 where
    f: "lookup_flag kind_bindFlags n = Some f" and
    d1: "store (target f) v d = Some d1" and
    rest: "Parse store kind_bindFlags cl d1 = Some d'"
    by (rule Parse_Cons_Some)
  have "target f \<noteq> F_buildType"
    using lookup_flag_Some [OF f] kind_flags_no_buildType by blast
  then have "buildType d1 = buildType d"
    using buildType_store [OF d1] by simp
  with Cons.IH [OF rest] show ?case by simp
qed

lemma Parse_append:
  "Parse st fl (a @ b) d = (case Parse st fl a d of None \<Rightarrow> None | Some d1 \<Rightarrow> Parse st fl b d1)"
  by (induction a arbitrary: d) (auto split: option.splits)

lemma Parse_nodeImage:
  "Parse store kind_bindFlags cl d = Some d' \<Longrightarrow>
   \<forall>(n, v)\<in>set cl. n \<noteq> ''image-name'' \<and> n \<noteq> ''build-type'' \<Longrightarrow>
   nodeImage d' = nodeImage d"
proof (induction cl arbitrary: d)
  case Nil
  then show ?case by simp
next
  case (Cons a cl)
  obtain n v where a: "a = (n, v)" by (cases a)
  from Cons.prems(1) have p: "Parse store kind_bindFlags ((n, v) # cl) d = Some d'"
    unfolding a .
  from p obtain f d1 where
    f: "lookup_flag kind_bindFlags n = Some f" and
    d1: "store (target f) v d = Some d1" and
    rest: "Parse store kind_bindFlags cl d1 = Some d'"
    by (rule Parse_Cons_Some)
  from Cons.prems(2) a have n: "n \<noteq> ''image-name'' \<and> n \<noteq> ''build-type''" by simp
  have "target f \<noteq> F_nodeImage"
    using lookup_flag_Some [OF f] kind_flags_nodeImage n by blast
  then have "nodeImage d1 = nodeImage d" using nodeImage_store [OF d1] by simp
  moreover have "nodeImage d' = nodeImage d1"
    using Cons.IH [OF rest] Cons.prems(2) by simp
  ultimately show ?case by simp
qed

lemma Parse_build_type_flag:
  assumes "Parse store kind_bindFlags (pre @ (''build-type'', StringValue X) # post) d = Some d'"
      and "\<forall>(n, v)\<in>set post. n \<noteq> ''image-name'' \<and> n \<noteq> ''build-type''"
  shows "nodeImage d' = X"
proof -
  from assms(1) obtain d1 where
    d1: "Parse store kind_bindFlags pre d = Some d1" and
    r: "Parse store kind_bindFlags ((''build-type'', StringValue X) # post) d1 = Some d'"
    by (auto simp: Parse_append split: option.splits)
  from r have "Parse store kind_bindFlags post (d1\<lparr>nodeImage := X\<rparr>) = Some d'"
    by (simp add: lookup_build_type StringVar_def store_def)
  from Parse_nodeImage [OF this assms(2)] show ?thesis by simp
qed

lemma Up_args_image:
  assumes "nodeImage d \<noteq> ''''"
  shows "sublist [''--image'', nodeImage d] (kind_Up_args d)"
proof -
  have "kind_Up_args d =
      ([''create'', ''cluster'', ''--name'', ClusterName d]
       @ (if logLevel d \<noteq> '''' then [''--loglevel'', logLevel d] else []))
      @ [''--image'', nodeImage d]
      @ ((if configPath d \<noteq> '''' then [''--config'', configPath d] else [])
         @ (if kubeconfigPath d \<noteq> '''' then [''--kubeconfig'', kubeconfigPath d] else [])
         @ (if verbosity d > 0 then [''--verbosity'', strconv_Itoa (verbosity d)] else []))"
    using assms unfolding kind_Up_args_def by simp
  then show ?thesis by (metis sublist_appendI)
qed

lemma Build_args_image:
  assumes "nodeImage d \<noteq> ''''"
  shows "sublist [''--image'', nodeImage d] (kind_Build_args d)"
proof -
  have "kind_Build_args d =
      ([''build'', ''node-image'']
       @ (if logLevel d \<noteq> '''' then [''--loglevel'', logLevel d] else [])
       @ (if buildType d \<noteq> '''' then [''--type'', buildType d] else [])
       @ (if kubeRoot d \<noteq> '''' then [''--kube-root'', kubeRoot d] else []))
      @ [''--image'', nodeImage d] @ []"
    using assms unfolding kind_Build_args_def by simp
  then show ?thesis by (metis sublist_appendI)
qed

lemma Build_args_no_type:
  "buildType d = '''' \<Longrightarrow> logLevel d \<noteq> ''--type'' \<Longrightarrow> kubeRoot d \<noteq> ''--type'' \<Longrightarrow>
   nodeImage d \<noteq> ''--type'' \<Longrightarrow> ''--type'' \<notin> set (kind_Build_args d)"
  by (simp add: kind_Build_args_def kindDefaultBuiltImageName_def)

lemma buildType_kind_New: "buildType (kind_New opts) = ''''"
  by (simp add: kind_New_simp kind_zero_def)

lemma capi_New_simp:
  "capi_New opts =
     \<lparr>kind = (kind_zero opts)\<lparr>ClusterName := ''kind-kubetest2''\<rparr>, provider = '''',
      kubernetesVersion = '''', controlPlaneCount = ''1'', workerCount = ''1'', flavor = '''',
      useExistingCluster = False, installCalico = False, kubecfgPath = '''',
      upTimeout = ''30m'', workloadClusterName = ''capi-workload-cluster''\<rparr>"
  by (simp add: capi_New_def all_flags_def kind_zero_def kind_bindFlags_def capi_bindFlags_def StringVar_def
      IntVar_def BoolVar_def store_any_def store_def capi_store_def)

section \<open>Paths and the kubeconfig fetch\<close>

lemma path_Clean_nonempty: "path_Clean p \<noteq> ''''"
  by (simp add: path_Clean_def Let_def)

lemma path_Join_nonempty: "e \<noteq> '''' \<Longrightarrow> e \<in> set elem \<Longrightarrow> path_Join elem \<noteq> ''''"
  by (auto simp: path_Join_def path_Clean_nonempty)

lemma tmp_join: "path_Join [''/tmp/kubetest2-capi123'', ''kubeconfig.yaml'']
   = ''/tmp/kubetest2-capi123/kubeconfig.yaml''"
  by (simp add: path_Join_def path_Clean_def clean_step_def Let_def)

lemma Kubeconfig_success:
  assumes "kubecfgPath d = ''''"
      and "capi_Kubeconfig sys d s = (Inr p, d1, s1)"
  shows "\<exists>tmpdir lines written.
           p = path_Join [tmpdir, ''kubeconfig.yaml''] \<and> d1 = d\<lparr>kubecfgPath := p\<rparr>
         \<and> log s1 = log s @
             [(TempDir '''' ''kubetest2-capi'', Success tmpdir),
              (Output None ''clusterctl'' [''get'', ''kubeconfig'', workloadClusterName d],
               Success lines),
              (WriteFile p lines 384, Success written)]"
  using assms
  by (auto simp: capi_Kubeconfig_def perform_def attempt_def Let_def succeeded_def
      split: prod.splits outcome.splits if_splits option.splits)

section \<open>The shape of a run of Up\<close>

text \<open>
  Each step of \<open>Up\<close> appends its calls to the log and stops the run at the first
  call that fails. The lemmas follow the steps from the last to the first.
\<close>

lemma perform_log: "perform sys c s = (r, s') \<Longrightarrow> log s' = log s @ [(c, r)]"
  by (auto simp: perform_def split: prod.splits)

lemma attempt_cases:
  assumes "attempt sys c s = (e, s')"
  obtains r where "log s' = log s @ [(c, r)]"
    "e = (if succeeded r then None else Some (CallError c r))"
  using assms perform_log [of sys c s]
  by (auto simp: attempt_def split: prod.splits if_splits)

lemma check_cases:
  assumes "check (attempt sys c s) d rest = (e, d', s')"
  obtains (stop) r where "log s' = log s @ [(c, r)]" "\<not> succeeded r"
      "e = Some (CallError c r)" "d' = d"
  | (go) r s1 where "log s1 = log s @ [(c, r)]" "succeeded r" "rest s1 = (e, d', s')"
proof (cases "attempt sys c s")
  case (Pair e1 s1)
  from attempt_cases [OF Pair] obtain r where
    l: "log s1 = log s @ [(c, r)]" and
    e1: "e1 = (if succeeded r then None else Some (CallError c r))"
    by blast
  show ?thesis
  proof (cases "succeeded r")
    case True
    with e1 Pair assms have "rest s1 = (e, d', s')" by (simp add: check_def)
    with l True show ?thesis by (rule go)
  next
    case False
    with e1 Pair assms have "e = Some (CallError c r)" "d' = d" "s' = s1"
      by (simp_all add: check_def)
    with l False show ?thesis by (auto intro: stop)
  qed
qed

lemma Kubeconfig_tail:
  assumes "capi_Kubeconfig sys d s = (res, d', s')"
  shows "\<exists>evs. log s' = log s @ evs \<and> (\<forall>ev\<in>set evs. tail_call ctx (fst ev))"
  using assms
  by (auto simp: capi_Kubeconfig_def perform_def attempt_def Let_def
      split: if_splits prod.splits outcome.splits option.splits)

lemma Up_calico_tail:
  assumes "Up_calico sys ctx d s = (e, d', s')"
  shows "\<exists>evs. log s' = log s @ evs \<and> (\<forall>ev\<in>set evs. tail_call ctx (fst ev))"
proof (cases "installCalico d")
  case False
  with assms show ?thesis by (simp add: Up_calico_def)
next
  case True
  obtain res d1 s1 where k: "capi_Kubeconfig sys d s = (res, d1, s1)"
    by (cases "capi_Kubeconfig sys d s") auto
  from Kubeconfig_tail [OF k] obtain evs where
    evs: "log s1 = log s @ evs" "\<forall>ev\<in>set evs. tail_call ctx (fst ev)"
    by blast
  show ?thesis
  proof (cases res)
    case (Inl err)
    with assms True k have "s' = s1" by (simp add: Up_calico_def)
    with evs show ?thesis by blast
  next
    case (Inr kubeconfig)
    let ?a = "Exec ctx ''kubectl'' [''--kubeconfig'', kubeconfig, ''apply'', ''-f'', calico_url]"
    let ?w = "Exec ctx ''kubectl'' [''--kubeconfig'', kubeconfig, ''wait'',
                 ''--for=condition=Available'', ''--all'', ''--all-namespaces'',
                 ''deployment'', ''--timeout=-1m'']"
    from assms True k Inr have
      c: "check (attempt sys ?a s1) d1
            (\<lambda>s. check (attempt sys ?w s) d1 (\<lambda>s. (None, d1, s))) = (e, d', s')"
      by (simp add: Up_calico_def ExecJUnitContext_def)
    from c show ?thesis
    proof (cases rule: check_cases)
      case (stop r)
      with evs show ?thesis by (simp add: wait_available_args_def)
    next
      case (go r s2)
      from go(3) show ?thesis
      proof (cases rule: check_cases)
        case (stop r2)
        with go(1) evs show ?thesis by (simp add: wait_available_args_def)
      next
        case (go r2 s3)
        with \<open>log s2 = log s1 @ [(?a, r)]\<close> evs show ?thesis by (auto simp: wait_available_args_def)
      qed
    qed
  qed
qed

lemma Up_ready_tail:
  assumes "Up_ready sys ctx d s = (e, d', s')"
  shows "\<exists>evs. log s' = log s @ evs \<and> (\<forall>ev\<in>set evs. tail_call ctx (fst ev))"
proof -
  from assms have
    c: "check (attempt sys (Exec ctx ''kubectl'' (wait_ready_args d)) s) d (Up_calico sys ctx d)
          = (e, d', s')"
    by (simp add: Up_ready_def ExecJUnitContext_def)
  from c show ?thesis
  proof (cases rule: check_cases)
    case (stop r)
    then show ?thesis by (simp add: wait_available_args_def wait_ready_args_def)
  next
    case (go r s1)
    from Up_calico_tail [OF go(3)] obtain evs where
      "log s' = log s1 @ evs" "\<forall>ev\<in>set evs. tail_call ctx (fst ev)"
      by blast
    with go(1) show ?thesis by (simp add: wait_available_args_def wait_ready_args_def)
  qed
qed

lemma attempt_all_shape:
  "attempt_all sys cs s = (e, s') \<Longrightarrow>
     \<exists>evs. log s' = log s @ evs \<and> prefix (map fst evs) cs
       \<and> (e = None \<longrightarrow> map fst evs = cs)
       \<and> (\<forall>ev\<in>set evs. \<not> succeeded (snd ev) \<longrightarrow> e \<noteq> None)"
proof (induction cs arbitrary: s)
  case Nil
  then show ?case by simp
next
  case (Cons c cs)
  obtain e1 s1 where a: "attempt sys c s = (e1, s1)"
    by (cases "attempt sys c s") auto
  from attempt_cases [OF a] obtain r where
    l: "log s1 = log s @ [(c, r)]" and
    e1: "e1 = (if succeeded r then None else Some (CallError c r))"
    by blast
  show ?case
  proof (cases "succeeded r")
    case True
    with e1 a Cons.prems have "attempt_all sys cs s1 = (e, s')" by simp
    from Cons.IH [OF this] obtain evs where
      "log s' = log s1 @ evs" "prefix (map fst evs) cs" "e = None \<longrightarrow> map fst evs = cs"
      "\<forall>ev\<in>set evs. \<not> succeeded (snd ev) \<longrightarrow> e \<noteq> None"
      by blast
    with l True have
      "log s' = log s @ ((c, r) # evs) \<and> prefix (map fst ((c, r) # evs)) (c # cs)
        \<and> (e = None \<longrightarrow> map fst ((c, r) # evs) = c # cs)
        \<and> (\<forall>ev\<in>set ((c, r) # evs). \<not> succeeded (snd ev) \<longrightarrow> e \<noteq> None)"
      by simp
    then show ?thesis by (rule exI)
  next
    case False
    with e1 a Cons.prems have "e = Some (CallError c r)" "s' = s1" by simp_all
    with l have
      "log s' = log s @ [(c, r)] \<and> prefix (map fst [(c, r)]) (c # cs)
        \<and> (e = None \<longrightarrow> map fst [(c, r)] = c # cs)
        \<and> (\<forall>ev\<in>set [(c, r)]. \<not> succeeded (snd ev) \<longrightarrow> e \<noteq> None)"
      by simp
    then show ?thesis by (rule exI)
  qed
qed

lemma Up_apply_unfold:
  "Up_apply sys ctx d s = check (attempt_all sys (pipe_calls ctx d) s) d (Up_ready sys ctx d)"
  by (simp add: Up_apply_def pipe_calls_def check_def split: prod.splits option.splits)

lemma Up_apply_shape:
  assumes "Up_apply sys ctx d s = (e, d', s')"
  shows "\<exists>mid post. log s' = log s @ mid @ post
      \<and> prefix (map fst mid) (pipe_calls ctx d)
      \<and> (\<forall>ev\<in>set post. tail_call ctx (fst ev))
      \<and> (\<forall>ev\<in>set mid. \<not> succeeded (snd ev) \<longrightarrow> e \<noteq> None)"
proof -
  obtain e1 s1 where a: "attempt_all sys (pipe_calls ctx d) s = (e1, s1)"
    by (cases "attempt_all sys (pipe_calls ctx d) s") auto
  from attempt_all_shape [OF a] obtain mid where
    mid: "log s1 = log s @ mid" "prefix (map fst mid) (pipe_calls ctx d)"
      "\<forall>ev\<in>set mid. \<not> succeeded (snd ev) \<longrightarrow> e1 \<noteq> None"
    by blast
  show ?thesis
  proof (cases e1)
    case (Some err)
    with assms a have "e = Some err" "s' = s1"
      by (simp_all add: Up_apply_unfold check_def)
    with mid have "log s' = log s @ mid @ [] \<and> prefix (map fst mid) (pipe_calls ctx d)
      \<and> (\<forall>ev\<in>set []. tail_call ctx (fst ev))
      \<and> (\<forall>ev\<in>set mid. \<not> succeeded (snd ev) \<longrightarrow> e \<noteq> None)"
      by simp
    then have "\<exists>post. log s' = log s @ mid @ post
      \<and> prefix (map fst mid) (pipe_calls ctx d)
      \<and> (\<forall>ev\<in>set post. tail_call ctx (fst ev))
      \<and> (\<forall>ev\<in>set mid. \<not> succeeded (snd ev) \<longrightarrow> e \<noteq> None)"
      by (rule exI)
    then show ?thesis by (rule exI)
  next
    case None
    with assms a have "Up_ready sys ctx d s1 = (e, d', s')"
      by (simp add: Up_apply_unfold check_def)
    from Up_ready_tail [OF this] obtain post where
      "log s' = log s1 @ post" "\<forall>ev\<in>set post. tail_call ctx (fst ev)"
      by blast
    with mid None have "log s' = log s @ mid @ post \<and> prefix (map fst mid) (pipe_calls ctx d)
      \<and> (\<forall>ev\<in>set post. tail_call ctx (fst ev))
      \<and> (\<forall>ev\<in>set mid. \<not> succeeded (snd ev) \<longrightarrow> e \<noteq> None)"
      by simp
    then have "\<exists>post. log s' = log s @ mid @ post
      \<and> prefix (map fst mid) (pipe_calls ctx d)
      \<and> (\<forall>ev\<in>set post. tail_call ctx (fst ev))
      \<and> (\<forall>ev\<in>set mid. \<not> succeeded (snd ev) \<longrightarrow> e \<noteq> None)"
      by (rule exI)
    then show ?thesis by (rule exI)
  qed
qed

lemma Up_wait_capi_shape:
  assumes "Up_wait_capi sys ctx d s = (e, d', s')"
  shows "\<exists>r mid post. log s' = log s @ (Exec ctx ''kubectl'' wait_available_args, r) # mid @ post
      \<and> prefix (map fst mid) (pipe_calls ctx d)
      \<and> (\<forall>ev\<in>set post. tail_call ctx (fst ev))
      \<and> (\<forall>ev\<in>set mid. \<not> succeeded (snd ev) \<longrightarrow> e \<noteq> None)"
proof -
  from assms have
    c: "check (attempt sys (Exec ctx ''kubectl'' wait_available_args) s) d (Up_apply sys ctx d)
          = (e, d', s')"
    by (simp add: Up_wait_capi_def ExecJUnitContext_def)
  from c show ?thesis
  proof (cases rule: check_cases)
    case (stop r)
    show ?thesis
      by (rule exI [of _ r], rule exI [of _ "[]"], rule exI [of _ "[]"]) (simp add: stop)
  next
    case (go r s1)
    from Up_apply_shape [OF go(3)] obtain mid post where
      f: "log s' = log s1 @ mid @ post" "prefix (map fst mid) (pipe_calls ctx d)"
      "\<forall>ev\<in>set post. tail_call ctx (fst ev)"
      "\<forall>ev\<in>set mid. \<not> succeeded (snd ev) \<longrightarrow> e \<noteq> None"
      by blast
    show ?thesis
      by (rule exI [of _ r], rule exI [of _ mid], rule exI [of _ post]) (simp add: f go(1))
  qed
qed

lemma Up_init_shape:
  assumes "Up_init sys ctx d lines s = (e, d', s')"
  shows "\<exists>pre mid post. log s' = log s @ pre @ mid @ post
      \<and> prefix (map fst mid) (pipe_calls ctx d)
      \<and> (\<forall>ev\<in>set post. tail_call ctx (fst ev))
      \<and> (\<forall>ev\<in>set mid. \<not> succeeded (snd ev) \<longrightarrow> e \<noteq> None)
      \<and> ((lines = '''' \<and>
                  (map fst pre = [Exec ctx ''clusterctl'' (init_args d)] \<and> mid = [] \<and> post = []
                   \<or> map fst pre = [Exec ctx ''clusterctl'' (init_args d),
                                     Exec ctx ''kubectl'' wait_available_args]))
             \<or> (lines \<noteq> '''' \<and> map fst pre = [Exec ctx ''kubectl'' wait_available_args]))"
proof (cases "lines = ''''")
  case False
  with assms have "Up_wait_capi sys ctx d s = (e, d', s')"
    by (simp add: Up_init_def)
  from Up_wait_capi_shape [OF this] obtain r mid post where
    f: "log s' = log s @ (Exec ctx ''kubectl'' wait_available_args, r) # mid @ post"
    "prefix (map fst mid) (pipe_calls ctx d)"
    "\<forall>ev\<in>set post. tail_call ctx (fst ev)"
    "\<forall>ev\<in>set mid. \<not> succeeded (snd ev) \<longrightarrow> e \<noteq> None"
    by blast
  show ?thesis
    by (rule exI [of _ "[(Exec ctx ''kubectl'' wait_available_args, r)]"],
        rule exI [of _ mid], rule exI [of _ post]) (simp add: f False)
next
  case True
  with assms have
    c: "check (attempt sys (Exec ctx ''clusterctl'' (init_args d)) s) d (Up_wait_capi sys ctx d)
          = (e, d', s')"
    by (simp add: Up_init_def ExecJUnitContext_def)
  from c show ?thesis
  proof (cases rule: check_cases)
    case (stop r)
    show ?thesis
      by (rule exI [of _ "[(Exec ctx ''clusterctl'' (init_args d), r)]"],
          rule exI [of _ "[]"], rule exI [of _ "[]"]) (simp add: stop True)
  next
    case (go r s1)
    from Up_wait_capi_shape [OF go(3)] obtain r2 mid post where
      f: "log s' = log s1 @ (Exec ctx ''kubectl'' wait_available_args, r2) # mid @ post"
      "prefix (map fst mid) (pipe_calls ctx d)"
      "\<forall>ev\<in>set post. tail_call ctx (fst ev)"
      "\<forall>ev\<in>set mid. \<not> succeeded (snd ev) \<longrightarrow> e \<noteq> None"
      by blast
    show ?thesis
      by (rule exI [of _ "[(Exec ctx ''clusterctl'' (init_args d), r),
                           (Exec ctx ''kubectl'' wait_available_args, r2)]"],
          rule exI [of _ mid], rule exI [of _ post]) (simp add: f go(1) True)
  qed
qed

lemma Up_query_shape:
  assumes "Up_query sys ctx d s = (e, d', s')"
  shows "\<exists>evs. log s' = log s @ evs \<and> query_onwards ctx d e evs"
proof -
  let ?q = "Output ctx ''kubectl'' (providers_args d)"
  obtain r s1 where p: "perform sys ?q s = (r, s1)"
    by (cases "perform sys ?q s") auto
  note l = perform_log [OF p]
  show ?thesis
  proof (cases "succeeded r \<or> tolerated r")
    case False
    with assms p have "s' = s1" "e \<noteq> None"
      by (auto simp: Up_query_def succeeded_def split: outcome.splits if_splits)
    with l False have "log s' = log s @ [(?q, r)] \<and> query_onwards ctx d e [(?q, r)]"
      by (simp add: query_onwards_def)
    then show ?thesis by (rule exI)
  next
    case True
    with assms p have "Up_init sys ctx d (stdout_of r) s1 = (e, d', s')"
      by (auto simp: Up_query_def succeeded_def split: outcome.splits if_splits)
    from Up_init_shape [OF this] obtain pre mid post where
      g: "log s' = log s1 @ pre @ mid @ post
      \<and> prefix (map fst mid) (pipe_calls ctx d)
      \<and> (\<forall>ev\<in>set post. tail_call ctx (fst ev))
      \<and> (\<forall>ev\<in>set mid. \<not> succeeded (snd ev) \<longrightarrow> e \<noteq> None)
      \<and> ((stdout_of r = [] \<and>
                  (map fst pre = [Exec ctx ''clusterctl'' (init_args d)] \<and> mid = [] \<and> post = []
                   \<or> map fst pre = [Exec ctx ''clusterctl'' (init_args d),
                                     Exec ctx ''kubectl'' wait_available_args]))
             \<or> (stdout_of r \<noteq> [] \<and> map fst pre = [Exec ctx ''kubectl'' wait_available_args]))"
      by (elim exE) (rule that)
    note f = g [THEN conjunct1] g [THEN conjunct2]
    have q: "query_onwards ctx d e ((?q, r) # pre @ mid @ post)"
      unfolding query_onwards_def
      by (rule exI [of _ r], rule exI [of _ pre], rule exI [of _ mid], rule exI [of _ post])
         (use f True in simp)
    have "log s' = log s @ ((?q, r) # pre @ mid @ post)"
      using f(1) l by simp
    with q have "log s' = log s @ ((?q, r) # pre @ mid @ post)
        \<and> query_onwards ctx d e ((?q, r) # pre @ mid @ post)"
      by simp
    then show ?thesis by (rule exI)
  qed
qed

lemma Up_shape:
  assumes "capi_Up PD sys d (start_state w) = (e, d', s')"
  shows "\<exists>boot evs. log s' = boot @ evs
     \<and> (boot = [] \<or> (\<exists>r. boot = [(Exec None ''kind'' (kind_Up_args (kind d)), r)]))
     \<and> (evs = [] \<and> e \<noteq> None \<or> query_onwards (PD (upTimeout d)) d e evs)"
proof (cases "PD (upTimeout d)")
  case None
  with assms have "log s' = [] @ []" "e \<noteq> None"
    by (auto simp: capi_Up_def start_state_def)
  then show ?thesis by blast
next
  case (Some T)
  show ?thesis
  proof (cases "useExistingCluster d")
    case True
    with Some assms have "Up_query sys (Some T) d (start_state w) = (e, d', s')"
      by (simp add: capi_Up_def)
    from Up_query_shape [OF this] obtain evs where
      "log s' = [] @ evs" "query_onwards (Some T) d e evs"
      by (auto simp: start_state_def)
    with Some show ?thesis by auto
  next
    case False
    let ?k = "Exec None ''kind'' (kind_Up_args (kind d))"
    from Some False assms have
      c: "check (attempt sys ?k (start_state w)) d (Up_query sys (Some T) d) = (e, d', s')"
      by (simp add: capi_Up_def kind_Up_def ExecJUnit_def ExecJUnitContext_def)
    from c show ?thesis
    proof (cases rule: check_cases)
      case (stop r)
      then have "log s' = [(?k, r)] @ []" "e \<noteq> None"
        by (simp_all add: start_state_def)
      then show ?thesis by blast
    next
      case (go r s1)
      from Up_query_shape [OF go(3)] obtain evs where
        "log s' = log s1 @ evs" "query_onwards (Some T) d e evs"
        by blast
      with go(1) Some have "log s' = [(?k, r)] @ evs" "query_onwards (PD (upTimeout d)) d e evs"
        by (simp_all add: start_state_def)
      then show ?thesis by blast
    qed
  qed
qed

lemma query_onwardsE:
  assumes "query_onwards ctx d e evs"
  obtains r pre mid post where
    "evs = (Output ctx ''kubectl'' (providers_args d), r) # pre @ mid @ post"
    "prefix (map fst mid) (pipe_calls ctx d)"
    "\<forall>ev\<in>set post. tail_call ctx (fst ev)"
    "\<forall>ev\<in>set mid. \<not> succeeded (snd ev) \<longrightarrow> e \<noteq> None"
    "if succeeded r \<or> tolerated r
     then (stdout_of r = [] \<and>
             (map fst pre = [Exec ctx ''clusterctl'' (init_args d)] \<and> mid = [] \<and> post = []
              \<or> map fst pre = [Exec ctx ''clusterctl'' (init_args d),
                                Exec ctx ''kubectl'' wait_available_args]))
        \<or> (stdout_of r \<noteq> [] \<and> map fst pre = [Exec ctx ''kubectl'' wait_available_args])
     else pre = [] \<and> mid = [] \<and> post = [] \<and> e \<noteq> None"
  using assms unfolding query_onwards_def
  by (elim exE conjE) (rule that)

lemma query_onwards_kinds:
  assumes "query_onwards ctx d e evs" and "ev \<in> set evs"
  shows "fst ev = Output ctx ''kubectl'' (providers_args d)
       \<or> fst ev = Exec ctx ''clusterctl'' (init_args d)
       \<or> fst ev = Exec ctx ''kubectl'' wait_available_args
       \<or> fst ev \<in> set (pipe_calls ctx d)
       \<or> tail_call ctx (fst ev)"
proof -
  from assms(1) obtain r pre mid post where
    evs: "evs = (Output ctx ''kubectl'' (providers_args d), r) # pre @ mid @ post" and
    mid: "prefix (map fst mid) (pipe_calls ctx d)" and
    post: "\<forall>ev\<in>set post. tail_call ctx (fst ev)" and
    sh: "if succeeded r \<or> tolerated r
     then (stdout_of r = [] \<and>
             (map fst pre = [Exec ctx ''clusterctl'' (init_args d)] \<and> mid = [] \<and> post = []
              \<or> map fst pre = [Exec ctx ''clusterctl'' (init_args d),
                                Exec ctx ''kubectl'' wait_available_args]))
        \<or> (stdout_of r \<noteq> [] \<and> map fst pre = [Exec ctx ''kubectl'' wait_available_args])
     else pre = [] \<and> mid = [] \<and> post = [] \<and> e \<noteq> None"
    by (rule query_onwardsE)
  have pre: "set (map fst pre) \<subseteq> {Exec ctx ''clusterctl'' (init_args d),
                                Exec ctx ''kubectl'' wait_available_args}"
  proof (cases "succeeded r \<or> tolerated r")
    case True
    with sh have "map fst pre = [Exec ctx ''clusterctl'' (init_args d)]
       \<or> map fst pre = [Exec ctx ''clusterctl'' (init_args d),
                                Exec ctx ''kubectl'' wait_available_args]
       \<or> map fst pre = [Exec ctx ''kubectl'' wait_available_args]"
      by auto
    then show ?thesis by (elim disjE) simp_all
  next
    case False
    with sh have "pre = []" by simp
    then show ?thesis by simp
  qed
  from assms(2) evs consider
    "ev = (Output ctx ''kubectl'' (providers_args d), r)" | "ev \<in> set pre" | "ev \<in> set mid"
    | "ev \<in> set post"
    by auto
  then show ?thesis
  proof cases
    case 1
    then show ?thesis by simp
  next
    case 2
    then have "fst ev \<in> set (map fst pre)" by simp
    with pre show ?thesis by blast
  next
    case 3
    then have "fst ev \<in> set (map fst mid)" by simp
    with set_mono_prefix [OF mid] show ?thesis by blast
  next
    case 4
    with post show ?thesis by blast
  qed
qed

lemma Up_call_kinds:
  assumes "capi_Up PD sys d (start_state w) = (e, d', s')" and "ev \<in> set (log s')"
  shows "fst ev = Exec None ''kind'' (kind_Up_args (kind d))
       \<or> fst ev = Output (PD (upTimeout d)) ''kubectl'' (providers_args d)
       \<or> fst ev = Exec (PD (upTimeout d)) ''clusterctl'' (init_args d)
       \<or> fst ev = Exec (PD (upTimeout d)) ''kubectl'' wait_available_args
       \<or> fst ev \<in> set (pipe_calls (PD (upTimeout d)) d)
       \<or> tail_call (PD (upTimeout d)) (fst ev)"
proof -
  from Up_shape [OF assms(1)] obtain boot evs where
    l: "log s' = boot @ evs" and
    boot: "boot = [] \<or> (\<exists>r. boot = [(Exec None ''kind'' (kind_Up_args (kind d)), r)])" and
    evs: "evs = [] \<and> e \<noteq> None \<or> query_onwards (PD (upTimeout d)) d e evs"
    by (elim exE conjE)
  from assms(2) l consider "ev \<in> set boot" | "ev \<in> set evs" by auto
  then show ?thesis
  proof cases
    case 1
    with boot show ?thesis by auto
  next
    case 2
    with evs have "query_onwards (PD (upTimeout d)) d e evs" by auto
    from query_onwards_kinds [OF this 2] show ?thesis by blast
  qed
qed

lemma tail_call_ctx:
  "tail_call ctx c \<Longrightarrow>
     subprocess_ctx c = None
   \<or> subprocess_ctx c = Some (if is_bootstrap_create c \<or> is_get_kubeconfig c then None else ctx)"
  by (cases c) auto

lemma pipe_call_ctx:
  "c \<in> set (pipe_calls ctx d) \<Longrightarrow>
     subprocess_ctx c = Some (if is_bootstrap_create c \<or> is_get_kubeconfig c then None else ctx)"
  by (auto simp: pipe_calls_def)

lemma create_is_bootstrap: "take 2 (kind_Up_args k) = [''create'', ''cluster'']"
  by (simp add: kind_Up_args_def)

lemmas run_defs =
  capi_Up_def Up_query_def Up_init_def Up_wait_capi_def Up_apply_def Up_ready_def Up_calico_def
  capi_Kubeconfig_def check_def attempt_def perform_def ExecJUnit_def ExecJUnitContext_def
  kind_Up_def succeeded_def start_state_def run_calls_def run_log_def run_error_def
  capi_New_simp kind_zero_def default_opts_def parse_30m_def kind_Up_args_def providers_args_def
  init_args_def wait_available_args_def config_cluster_args_def apply_args_def
  wait_ready_args_def calico_url_def no_resource_type_def Let_def

lemma tail_call_other:
  "tail_call ctx c \<Longrightarrow> \<not> is_init c \<and> \<not> is_provider_query c \<and> \<not> is_wait c"
  by (cases c) auto

lemma pipe_call_other:
  "c \<in> set (pipe_calls ctx d) \<Longrightarrow> \<not> is_init c \<and> \<not> is_provider_query c"
  by (auto simp: pipe_calls_def)

lemma query_onwards_install:
  assumes "query_onwards ctx d e evs"
  obtains r rest where
    "evs = (Output ctx ''kubectl'' (providers_args d), r) # rest"
    "\<forall>ev\<in>set rest. \<not> is_provider_query (fst ev)"
    "succeeded r \<or> tolerated r \<longrightarrow>
       rest \<noteq> []
       \<and> fst (hd rest) = (if stdout_of r = [] then Exec ctx ''clusterctl'' (init_args d)
                           else Exec ctx ''kubectl'' wait_available_args)
       \<and> filter is_init (map fst rest)
           = (if stdout_of r = [] then [Exec ctx ''clusterctl'' (init_args d)] else [])"
    "\<not> (succeeded r \<or> tolerated r) \<longrightarrow> rest = [] \<and> e \<noteq> None"
proof -
  from assms obtain r pre mid post where
    evs: "evs = (Output ctx ''kubectl'' (providers_args d), r) # pre @ mid @ post" and
    mid: "prefix (map fst mid) (pipe_calls ctx d)" and
    post: "\<forall>ev\<in>set post. tail_call ctx (fst ev)" and
    sh: "if succeeded r \<or> tolerated r
     then (stdout_of r = [] \<and>
             (map fst pre = [Exec ctx ''clusterctl'' (init_args d)] \<and> mid = [] \<and> post = []
              \<or> map fst pre = [Exec ctx ''clusterctl'' (init_args d),
                                Exec ctx ''kubectl'' wait_available_args]))
        \<or> (stdout_of r \<noteq> [] \<and> map fst pre = [Exec ctx ''kubectl'' wait_available_args])
     else pre = [] \<and> mid = [] \<and> post = [] \<and> e \<noteq> None"
    by (rule query_onwardsE)
  have midc: "\<forall>c\<in>set (map fst mid). \<not> is_init c \<and> \<not> is_provider_query c"
    using set_mono_prefix [OF mid] pipe_call_other by blast
  have postc: "\<forall>c\<in>set (map fst post). \<not> is_init c \<and> \<not> is_provider_query c"
    using post tail_call_other by auto
  have fm: "filter is_init (map fst mid) = []" using midc by (simp add: filter_empty_conv)
  have fp: "filter is_init (map fst post) = []" using postc by (simp add: filter_empty_conv)
  have prec: "map fst pre = [Exec ctx ''clusterctl'' (init_args d)]
       \<or> map fst pre = [Exec ctx ''clusterctl'' (init_args d),
                                Exec ctx ''kubectl'' wait_available_args]
       \<or> map fst pre = [Exec ctx ''kubectl'' wait_available_args]
       \<or> pre = []"
    using sh by (auto split: if_splits)
  have preq: "\<forall>c\<in>set (map fst pre). \<not> is_provider_query c"
    using prec by (elim disjE) simp_all
  have a: "evs = (Output ctx ''kubectl'' (providers_args d), r) # (pre @ mid @ post)"
    using evs by simp
  have b: "\<forall>ev\<in>set (pre @ mid @ post). \<not> is_provider_query (fst ev)"
    using preq midc postc by auto
  have c: "pre @ mid @ post \<noteq> []
       \<and> fst (hd (pre @ mid @ post))
           = (if stdout_of r = [] then Exec ctx ''clusterctl'' (init_args d)
              else Exec ctx ''kubectl'' wait_available_args)
       \<and> filter is_init (map fst (pre @ mid @ post))
           = (if stdout_of r = [] then [Exec ctx ''clusterctl'' (init_args d)] else [])"
    if t: "succeeded r \<or> tolerated r"
  proof (cases "stdout_of r = []")
    case True
    with sh t have p: "map fst pre = [Exec ctx ''clusterctl'' (init_args d)]
       \<or> map fst pre = [Exec ctx ''clusterctl'' (init_args d),
                                Exec ctx ''kubectl'' wait_available_args]"
      by auto
    then have ne: "pre \<noteq> []" by auto
    from p have h: "fst (hd pre) = Exec ctx ''clusterctl'' (init_args d)"
      by (cases pre) auto
    from p have f: "filter is_init (map fst pre) = [Exec ctx ''clusterctl'' (init_args d)]"
      by (elim disjE) (simp_all add: init_args_def)
    from ne h f fm fp True show ?thesis by simp
  next
    case False
    with sh t have p: "map fst pre = [Exec ctx ''kubectl'' wait_available_args]"
      by auto
    then have ne: "pre \<noteq> []" by auto
    from p have h: "fst (hd pre) = Exec ctx ''kubectl'' wait_available_args"
      by (cases pre) auto
    from p have f: "filter is_init (map fst pre) = []"
      by simp
    from ne h f fm fp False show ?thesis by simp
  qed
  have d: "pre @ mid @ post = [] \<and> e \<noteq> None" if "\<not> (succeeded r \<or> tolerated r)"
    using sh that by simp
  show ?thesis
  proof (rule that [OF a b], goal_cases)
    case 1
    show ?case by (rule impI) (rule c)
  next
    case 2
    show ?case by (rule impI) (rule d)
  qed
qed

lemma Up_query_entry:
  assumes X: "capi_Up PD sys d (start_state w) = (e, d', s')"
      and m: "(Output ctx ''kubectl'' (providers_args d), r) \<in> set (log s')"
  obtains boot rest where
    "ctx = PD (upTimeout d)"
    "log s' = boot @ (Output ctx ''kubectl'' (providers_args d), r) # rest"
    "\<forall>ev\<in>set boot. \<not> is_init (fst ev)"
    "succeeded r \<or> tolerated r \<longrightarrow>
       rest \<noteq> []
       \<and> fst (hd rest) = (if stdout_of r = [] then Exec ctx ''clusterctl'' (init_args d)
                           else Exec ctx ''kubectl'' wait_available_args)
       \<and> filter is_init (map fst rest)
           = (if stdout_of r = [] then [Exec ctx ''clusterctl'' (init_args d)] else [])"
    "\<not> (succeeded r \<or> tolerated r) \<longrightarrow> rest = [] \<and> e \<noteq> None"
proof -
  let ?c = "PD (upTimeout d)"
  from Up_shape [OF X] obtain boot evs where
    l: "log s' = boot @ evs" and
    boot: "boot = [] \<or> (\<exists>r. boot = [(Exec None ''kind'' (kind_Up_args (kind d)), r)])" and
    evs: "evs = [] \<and> e \<noteq> None \<or> query_onwards ?c d e evs"
    by (elim exE conjE)
  from boot have nb: "(Output ctx ''kubectl'' (providers_args d), r) \<notin> set boot"
    by auto
  from boot have bi: "\<forall>ev\<in>set boot. \<not> is_init (fst ev)"
    by auto
  from m l nb have me: "(Output ctx ''kubectl'' (providers_args d), r) \<in> set evs"
    by simp
  with evs have q: "query_onwards ?c d e evs" by auto
  from q obtain r1 rest where
    e1: "evs = (Output ?c ''kubectl'' (providers_args d), r1) # rest" and
    nq: "\<forall>ev\<in>set rest. \<not> is_provider_query (fst ev)" and
    ok: "succeeded r1 \<or> tolerated r1 \<longrightarrow>
       rest \<noteq> []
       \<and> fst (hd rest) = (if stdout_of r1 = [] then Exec ?c ''clusterctl'' (init_args d)
                           else Exec ?c ''kubectl'' wait_available_args)
       \<and> filter is_init (map fst rest)
           = (if stdout_of r1 = [] then [Exec ?c ''clusterctl'' (init_args d)] else [])" and
    bad: "\<not> (succeeded r1 \<or> tolerated r1) \<longrightarrow> rest = [] \<and> e \<noteq> None"
    by (rule query_onwards_install)
  have "(Output ctx ''kubectl'' (providers_args d), r) \<notin> set rest"
    using nq by force
  with me e1 have same: "ctx = ?c" "r1 = r" by auto
  show ?thesis
  proof (rule that [of boot rest])
    show "ctx = ?c" by (rule same)
    show "log s' = boot @ (Output ctx ''kubectl'' (providers_args d), r) # rest"
      using l e1 same by simp
    show "\<forall>ev\<in>set boot. \<not> is_init (fst ev)" by (rule bi)
    show "succeeded r \<or> tolerated r \<longrightarrow> rest \<noteq> []
       \<and> fst (hd rest) = (if stdout_of r = [] then Exec ctx ''clusterctl'' (init_args d)
                           else Exec ctx ''kubectl'' wait_available_args)
       \<and> filter is_init (map fst rest)
           = (if stdout_of r = [] then [Exec ctx ''clusterctl'' (init_args d)] else [])"
      using ok same by simp
    show "\<not> (succeeded r \<or> tolerated r) \<longrightarrow> rest = [] \<and> e \<noteq> None"
      using bad same by simp
  qed
qed

lemma split_after:
  assumes "xs @ ys = p @ x # q" and "x \<notin> set xs"
  obtains p' where "p = xs @ p'" "ys = p' @ x # q"
  using assms
  by (auto simp: append_eq_append_conv2 append_eq_Cons_conv)

lemma prefix5_cases:
  assumes "prefix M [a, b, c, d, e]"
  shows "M = [] \<or> M = [a] \<or> M = [a, b] \<or> M = [a, b, c] \<or> M = [a, b, c, d]
       \<or> M = [a, b, c, d, e]"
  using assms by (auto simp: prefix_Cons)

lemma pipe_order:
  assumes M: "prefix M [a, b, c, d, e]"
      and nA: "\<forall>y\<in>set A. \<not> W y" and nP: "\<forall>y\<in>set P. \<not> W y"
      and W: "\<not> W a" "\<not> W b" "\<not> W c"
      and eq: "A @ M @ P = p @ x # q" and Wx: "W x"
  shows "b \<in> set p \<and> c \<in> set p \<and> (x = d \<or> (x = e \<and> d \<in> set p))"
proof -
  have xA: "x \<notin> set A" using nA Wx by blast
  have xP: "x \<notin> set P" using nP Wx by blast
  have xabc: "x \<notin> set [a, b, c]" using W Wx by auto
  from eq xA obtain p1 where p: "p = A @ p1" and e1: "M @ P = p1 @ x # q"
    by (rule split_after)
  from e1 have "x \<in> set (M @ P)" by simp
  with xP have xM: "x \<in> set M" by simp
  from prefix5_cases [OF M] xM xabc consider "M = [a, b, c, d]" | "M = [a, b, c, d, e]"
    by auto
  then show ?thesis
  proof cases
    case 1
    with e1 have "[a, b, c] @ (d # P) = p1 @ x # q" by simp
    from this xabc obtain p2 where p1: "p1 = [a, b, c] @ p2" and e2: "d # P = p2 @ x # q"
      by (rule split_after)
    from e2 xP have "p2 = [] \<and> x = d"
      by (auto simp: Cons_eq_append_conv)
    with p p1 show ?thesis by simp
  next
    case 2
    with e1 have "[a, b, c] @ (d # e # P) = p1 @ x # q" by simp
    from this xabc obtain p2 where p1: "p1 = [a, b, c] @ p2" and e2: "d # e # P = p2 @ x # q"
      by (rule split_after)
    from e2 xP have "(p2 = [] \<and> x = d) \<or> (p2 = [d] \<and> x = e)"
      by (auto simp: Cons_eq_append_conv)
    with p p1 show ?thesis by auto
  qed
qed

lemma Up_pipe_shape:
  assumes "capi_Up PD sys d (start_state w) = (e, d', s')"
  shows "\<exists>A mid post. log s' = A @ mid @ post
      \<and> (\<forall>ev\<in>set A. \<not> is_wait (fst ev))
      \<and> prefix (map fst mid) (pipe_calls (PD (upTimeout d)) d)
      \<and> (\<forall>ev\<in>set post. \<not> is_wait (fst ev))
      \<and> (\<forall>ev\<in>set mid. \<not> succeeded (snd ev) \<longrightarrow> e \<noteq> None)"
proof -
  let ?c = "PD (upTimeout d)"
  from Up_shape [OF assms] obtain boot evs where
    l: "log s' = boot @ evs" and
    boot: "boot = [] \<or> (\<exists>r. boot = [(Exec None ''kind'' (kind_Up_args (kind d)), r)])" and
    evs: "evs = [] \<and> e \<noteq> None \<or> query_onwards ?c d e evs"
    by (elim exE conjE)
  from boot have bw: "\<forall>ev\<in>set boot. \<not> is_wait (fst ev)" by auto
  show ?thesis
  proof (cases "evs = []")
    case True
    show ?thesis
      by (rule exI [of _ boot], rule exI [of _ "[]"], rule exI [of _ "[]"])
         (simp add: l True bw)
  next
    case False
    with evs have "query_onwards ?c d e evs" by simp
    then obtain r pre mid post where
      ev: "evs = (Output ?c ''kubectl'' (providers_args d), r) # pre @ mid @ post" and
      mid: "prefix (map fst mid) (pipe_calls ?c d)" and
      post: "\<forall>ev\<in>set post. tail_call ?c (fst ev)" and
      fail: "\<forall>ev\<in>set mid. \<not> succeeded (snd ev) \<longrightarrow> e \<noteq> None" and
      sh: "if succeeded r \<or> tolerated r
       then (stdout_of r = [] \<and>
             (map fst pre = [Exec ?c ''clusterctl'' (init_args d)] \<and> mid = [] \<and> post = []
              \<or> map fst pre = [Exec ?c ''clusterctl'' (init_args d),
                                Exec ?c ''kubectl'' wait_available_args]))
        \<or> (stdout_of r \<noteq> [] \<and> map fst pre = [Exec ?c ''kubectl'' wait_available_args])
       else pre = [] \<and> mid = [] \<and> post = [] \<and> e \<noteq> None"
      by (rule query_onwardsE)
    have prec: "map fst pre = [Exec ?c ''clusterctl'' (init_args d)]
       \<or> map fst pre = [Exec ?c ''clusterctl'' (init_args d),
                                Exec ?c ''kubectl'' wait_available_args]
       \<or> map fst pre = [Exec ?c ''kubectl'' wait_available_args]
       \<or> pre = []"
      using sh by (auto split: if_splits)
    have "\<forall>c\<in>set (map fst pre). \<not> is_wait c"
      using prec by (elim disjE) simp_all
    then have pw: "\<forall>ev\<in>set pre. \<not> is_wait (fst ev)" by simp
    have tw: "\<forall>ev\<in>set post. \<not> is_wait (fst ev)"
      using post tail_call_other by blast
    show ?thesis
      by (rule exI [of _ "boot @ (Output ?c ''kubectl'' (providers_args d), r) # pre"],
          rule exI [of _ mid], rule exI [of _ post])
         (simp add: l ev bw pw tw mid fail ball_Un)
  qed
qed

section \<open>The pipe step of Up, call by call\<close>

lemma attempt_all_exact:
  "attempt_all sys cs s = (e, s') \<Longrightarrow> cs \<noteq> [] \<Longrightarrow>
     \<exists>evs. log s' = log s @ evs \<and> evs \<noteq> [] \<and> prefix (map fst evs) cs
       \<and> (\<forall>ev\<in>set (butlast evs). succeeded (snd ev))
       \<and> (if succeeded (snd (last evs)) then map fst evs = cs \<and> e = None
          else e = Some (CallError (fst (last evs)) (snd (last evs))))"
proof (induction cs arbitrary: s)
  case Nil
  then show ?case by simp
next
  case (Cons c cs)
  obtain e1 s1 where a: "attempt sys c s = (e1, s1)"
    by (cases "attempt sys c s") auto
  from attempt_cases [OF a] obtain r where
    l: "log s1 = log s @ [(c, r)]" and
    e1: "e1 = (if succeeded r then None else Some (CallError c r))"
    by blast
  show ?case
  proof (cases "succeeded r")
    case False
    with e1 a Cons.prems have "e = Some (CallError c r)" "s' = s1" by simp_all
    with l False show ?thesis
      by (intro exI [of _ "[(c, r)]"]) simp
  next
    case True
    with e1 a Cons.prems have rest: "attempt_all sys cs s1 = (e, s')" by simp
    show ?thesis
    proof (cases "cs = []")
      case True
      with rest have "e = None" "s' = s1" by simp_all
      with l \<open>succeeded r\<close> True show ?thesis
        by (intro exI [of _ "[(c, r)]"]) simp
    next
      case False
      from Cons.IH [OF rest False] obtain evs where
        f: "log s' = log s1 @ evs \<and> evs \<noteq> [] \<and> prefix (map fst evs) cs
       \<and> (\<forall>ev\<in>set (butlast evs). succeeded (snd ev))
       \<and> (if succeeded (snd (last evs)) then map fst evs = cs \<and> e = None
          else e = Some (CallError (fst (last evs)) (snd (last evs))))"
        by (elim exE) (rule that)
      from f l \<open>succeeded r\<close> show ?thesis
        by (intro exI [of _ "(c, r) # evs"]) (auto split: if_splits)
    qed
  qed
qed

lemma pipe_calls_nonempty: "pipe_calls ctx d \<noteq> []"
  by (simp add: pipe_calls_def)

lemma Up_ready_first:
  assumes "Up_ready sys ctx d s = (e, d', s')"
  shows "\<exists>evs. log s' = log s @ evs \<and> evs \<noteq> []
      \<and> fst (hd evs) = Exec ctx ''kubectl'' (wait_ready_args d)
      \<and> (\<forall>ev\<in>set evs. tail_call ctx (fst ev))"
proof -
  from assms have
    c: "check (attempt sys (Exec ctx ''kubectl'' (wait_ready_args d)) s) d (Up_calico sys ctx d)
          = (e, d', s')"
    by (simp add: Up_ready_def ExecJUnitContext_def)
  from c show ?thesis
  proof (cases rule: check_cases)
    case (stop r)
    then show ?thesis
      by (intro exI [of _ "[(Exec ctx ''kubectl'' (wait_ready_args d), r)]"])
         (simp add: wait_available_args_def wait_ready_args_def)
  next
    case (go r s1)
    from Up_calico_tail [OF go(3)] obtain evs where
      "log s' = log s1 @ evs" "\<forall>ev\<in>set evs. tail_call ctx (fst ev)"
      by blast
    with go(1) show ?thesis
      by (intro exI [of _ "(Exec ctx ''kubectl'' (wait_ready_args d), r) # evs"])
         (simp add: wait_available_args_def wait_ready_args_def)
  qed
qed

lemma Up_apply_exact:
  assumes "Up_apply sys ctx d s = (e, d', s')"
  shows "\<exists>evs. log s' = log s @ evs \<and> pipe_run ctx d e evs"
proof -
  obtain e1 s1 where a: "attempt_all sys (pipe_calls ctx d) s = (e1, s1)"
    by (cases "attempt_all sys (pipe_calls ctx d) s") auto
  from attempt_all_exact [OF a pipe_calls_nonempty] obtain mid where
    m: "log s1 = log s @ mid \<and> mid \<noteq> [] \<and> prefix (map fst mid) (pipe_calls ctx d)
       \<and> (\<forall>ev\<in>set (butlast mid). succeeded (snd ev))
       \<and> (if succeeded (snd (last mid)) then map fst mid = pipe_calls ctx d \<and> e1 = None
          else e1 = Some (CallError (fst (last mid)) (snd (last mid))))"
    by (elim exE) (rule that)
  show ?thesis
  proof (cases "succeeded (snd (last mid))")
    case False
    with m have e1: "e1 = Some (CallError (fst (last mid)) (snd (last mid)))" by simp
    with assms a have "e = e1" "s' = s1"
      by (simp_all add: Up_apply_unfold check_def)
    with m e1 False have "log s' = log s @ mid \<and> pipe_run ctx d e mid"
      unfolding pipe_run_def
      by (intro conjI exI [of _ mid] exI [of _ "[]"]) simp_all
    then show ?thesis by (rule exI)
  next
    case True
    with m have "e1 = None" by simp
    with assms a have "Up_ready sys ctx d s1 = (e, d', s')"
      by (simp add: Up_apply_unfold check_def)
    from Up_ready_first [OF this] obtain post where
      p: "log s' = log s1 @ post \<and> post \<noteq> []
      \<and> fst (hd post) = Exec ctx ''kubectl'' (wait_ready_args d)
      \<and> (\<forall>ev\<in>set post. tail_call ctx (fst ev))"
      by (elim exE) (rule that)
    from m p True have "log s' = log s @ (mid @ post) \<and> pipe_run ctx d e (mid @ post)"
      unfolding pipe_run_def
      by (intro conjI exI [of _ mid] exI [of _ post]) simp_all
    then show ?thesis by (rule exI)
  qed
qed

lemma pipe_run_no_wait_available:
  assumes "pipe_run ctx d e evs" and "ev \<in> set evs"
  shows "fst ev \<noteq> Exec ctx ''kubectl'' wait_available_args"
proof -
  from assms(1) obtain mid post where
    evs: "evs = mid @ post" and
    mid: "prefix (map fst mid) (pipe_calls ctx d)" and
    post: "\<forall>ev\<in>set post. tail_call ctx (fst ev)"
    unfolding pipe_run_def by (elim exE conjE) (rule that)
  from assms(2) evs consider "ev \<in> set mid" | "ev \<in> set post" by auto
  then show ?thesis
  proof cases
    case 1
    then have "fst ev \<in> set (map fst mid)" by simp
    with set_mono_prefix [OF mid] have "fst ev \<in> set (pipe_calls ctx d)" by blast
    then show ?thesis by (auto simp: pipe_calls_def)
  next
    case 2
    with post have "tail_call ctx (fst ev)" by blast
    then show ?thesis by auto
  qed
qed

lemma Up_wait_capi_exact:
  assumes "Up_wait_capi sys ctx d s = (e, d', s')"
  shows "\<exists>evs. log s' = log s @ evs \<and> from_wait ctx d e evs"
proof -
  let ?w = "Exec ctx ''kubectl'' wait_available_args"
  from assms have
    c: "check (attempt sys ?w s) d (Up_apply sys ctx d) = (e, d', s')"
    by (simp add: Up_wait_capi_def ExecJUnitContext_def)
  from c show ?thesis
  proof (cases rule: check_cases)
    case (stop r)
    then have "log s' = log s @ [(?w, r)] \<and> from_wait ctx d e [(?w, r)]"
      unfolding from_wait_def
      by (intro conjI exI [of _ r] exI [of _ "[]"]) simp_all
    then show ?thesis by (rule exI)
  next
    case (go r s1)
    from Up_apply_exact [OF go(3)] obtain rest where
      r: "log s' = log s1 @ rest" "pipe_run ctx d e rest"
      by blast
    have nw: "\<forall>ev\<in>set rest. fst ev \<noteq> ?w"
      using pipe_run_no_wait_available [OF r(2)] by blast
    from r nw go(1) go(2) have "log s' = log s @ ((?w, r) # rest)
        \<and> from_wait ctx d e ((?w, r) # rest)"
      unfolding from_wait_def
      by (intro conjI exI [of _ r] exI [of _ rest]) simp_all
    then show ?thesis by (rule exI)
  qed
qed

lemma Up_init_exact:
  assumes "Up_init sys ctx d lines s = (e, d', s')"
  shows "\<exists>P W. log s' = log s @ P @ W
      \<and> (\<forall>ev\<in>set P. fst ev \<noteq> Exec ctx ''kubectl'' wait_available_args)
      \<and> (W = [] \<and> e \<noteq> None \<or> from_wait ctx d e W)"
proof (cases "lines = []")
  case False
  with assms have "Up_wait_capi sys ctx d s = (e, d', s')"
    by (simp add: Up_init_def)
  from Up_wait_capi_exact [OF this] obtain W where
    "log s' = log s @ W" "from_wait ctx d e W"
    by blast
  then show ?thesis
    by (intro exI [of _ "[]"] exI [of _ W]) simp
next
  case True
  let ?i = "Exec ctx ''clusterctl'' (init_args d)"
  from True assms have
    c: "check (attempt sys ?i s) d (Up_wait_capi sys ctx d) = (e, d', s')"
    by (simp add: Up_init_def ExecJUnitContext_def)
  from c show ?thesis
  proof (cases rule: check_cases)
    case (stop r)
    then show ?thesis
      by (intro exI [of _ "[(?i, r)]"] exI [of _ "[]"]) simp
  next
    case (go r s1)
    from Up_wait_capi_exact [OF go(3)] obtain W where
      "log s' = log s1 @ W" "from_wait ctx d e W"
      by blast
    with go(1) show ?thesis
      by (intro exI [of _ "[(?i, r)]"] exI [of _ W]) simp
  qed
qed

lemma Up_query_exact:
  assumes "Up_query sys ctx d s = (e, d', s')"
  shows "\<exists>P W. log s' = log s @ P @ W
      \<and> (\<forall>ev\<in>set P. fst ev \<noteq> Exec ctx ''kubectl'' wait_available_args)
      \<and> (W = [] \<and> e \<noteq> None \<or> from_wait ctx d e W)"
proof -
  let ?q = "Output ctx ''kubectl'' (providers_args d)"
  obtain r s1 where p: "perform sys ?q s = (r, s1)"
    by (cases "perform sys ?q s") auto
  note l = perform_log [OF p]
  show ?thesis
  proof (cases "succeeded r \<or> tolerated r")
    case False
    with assms p have "s' = s1" "e \<noteq> None"
      by (auto simp: Up_query_def succeeded_def split: outcome.splits if_splits)
    with l show ?thesis
      by (intro exI [of _ "[(?q, r)]"] exI [of _ "[]"]) simp
  next
    case True
    with assms p have "Up_init sys ctx d (stdout_of r) s1 = (e, d', s')"
      by (auto simp: Up_query_def succeeded_def split: outcome.splits if_splits)
    from Up_init_exact [OF this] obtain P W where
      f: "log s' = log s1 @ P @ W
      \<and> (\<forall>ev\<in>set P. fst ev \<noteq> Exec ctx ''kubectl'' wait_available_args)
      \<and> (W = [] \<and> e \<noteq> None \<or> from_wait ctx d e W)"
      by (elim exE) (rule that)
    with l show ?thesis
      by (intro exI [of _ "(?q, r) # P"] exI [of _ W]) simp
  qed
qed

lemma Up_exact:
  assumes "capi_Up PD sys d (start_state w) = (e, d', s')"
  shows "\<exists>P W. log s' = P @ W
      \<and> (\<forall>ev\<in>set P. fst ev \<noteq> Exec (PD (upTimeout d)) ''kubectl'' wait_available_args)
      \<and> (W = [] \<and> e \<noteq> None \<or> from_wait (PD (upTimeout d)) d e W)"
proof (cases "PD (upTimeout d)")
  case None
  with assms have "log s' = []" "e \<noteq> None"
    by (auto simp: capi_Up_def start_state_def)
  then show ?thesis
    by (intro exI [of _ "[]"]) simp
next
  case (Some T)
  show ?thesis
  proof (cases "useExistingCluster d")
    case True
    with Some assms have "Up_query sys (Some T) d (start_state w) = (e, d', s')"
      by (simp add: capi_Up_def)
    from Up_query_exact [OF this] obtain P W where
      "log s' = log (start_state w) @ P @ W
       \<and> (\<forall>ev\<in>set P. fst ev \<noteq> Exec (Some T) ''kubectl'' wait_available_args)
       \<and> (W = [] \<and> e \<noteq> None \<or> from_wait (Some T) d e W)"
      by (elim exE) (rule that)
    with Some show ?thesis
      by (intro exI [of _ P] exI [of _ W]) (simp add: start_state_def)
  next
    case False
    let ?k = "Exec None ''kind'' (kind_Up_args (kind d))"
    from Some False assms have
      c: "check (attempt sys ?k (start_state w)) d (Up_query sys (Some T) d) = (e, d', s')"
      by (simp add: capi_Up_def kind_Up_def ExecJUnit_def ExecJUnitContext_def)
    from c show ?thesis
    proof (cases rule: check_cases)
      case (stop r)
      then show ?thesis
        by (intro exI [of _ "[(?k, r)]"] exI [of _ "[]"]) (simp add: start_state_def)
    next
      case (go r s1)
      from Up_query_exact [OF go(3)] obtain P W where
        "log s' = log s1 @ P @ W
         \<and> (\<forall>ev\<in>set P. fst ev \<noteq> Exec (Some T) ''kubectl'' wait_available_args)
         \<and> (W = [] \<and> e \<noteq> None \<or> from_wait (Some T) d e W)"
        by (elim exE) (rule that)
      with go(1) Some show ?thesis
        by (intro exI [of _ "(?k, r) # P"] exI [of _ W]) (simp add: start_state_def)
    qed
  qed
qed

lemma locate:
  assumes eq: "P @ (c, r') # tail = pre @ (c, r) # rest"
      and nP: "\<forall>ev\<in>set P. fst ev \<noteq> c"
      and nt: "\<forall>ev\<in>set tail. fst ev \<noteq> c"
  shows "pre = P \<and> r = r' \<and> rest = tail"
proof -
  have "(c, r) \<notin> set P" using nP by force
  with eq obtain p' where p: "pre = P @ p'" and e2: "(c, r') # tail = p' @ (c, r) # rest"
    by (rule split_after)
  have nt': "(c, r) \<notin> set tail" using nt by force
  from e2 nt' have "p' = []"
    by (cases p') auto
  with p e2 show ?thesis by simp
qed

lemma waits_follow_starts:
  "(\<forall>pre c post.
      run_calls (capi_Up PD sys d (start_state w)) = pre @ c # post \<and> is_wait c \<longrightarrow>
        Start (PD (upTimeout d)) ''clusterctl'' (config_cluster_args d) \<in> set pre
      \<and> Start (PD (upTimeout d)) ''kubectl'' apply_args \<in> set pre
      \<and> (c = Wait (PD (upTimeout d)) ''clusterctl'' (config_cluster_args d)
         \<or> c = Wait (PD (upTimeout d)) ''kubectl'' apply_args
           \<and> Wait (PD (upTimeout d)) ''clusterctl'' (config_cluster_args d) \<in> set pre))
   \<and> (\<forall>c r.
        (c, r) \<in> set (run_log (capi_Up PD sys d (start_state w))) \<and> is_wait c
        \<and> \<not> succeeded r \<longrightarrow>
          run_error (capi_Up PD sys d (start_state w)) \<noteq> None)"
proof -
  let ?c = "PD (upTimeout d)"
  obtain e d' s' where X: "capi_Up PD sys d (start_state w) = (e, d', s')"
    by (cases "capi_Up PD sys d (start_state w)") auto
  from Up_pipe_shape [OF X] obtain A mid post where
    l: "log s' = A @ mid @ post" and
    A: "\<forall>ev\<in>set A. \<not> is_wait (fst ev)" and
    mid: "prefix (map fst mid) (pipe_calls ?c d)" and
    post: "\<forall>ev\<in>set post. \<not> is_wait (fst ev)" and
    fail: "\<forall>ev\<in>set mid. \<not> succeeded (snd ev) \<longrightarrow> e \<noteq> None"
    by (elim exE conjE)
  have calls: "run_calls (capi_Up PD sys d (start_state w))
      = map fst A @ map fst mid @ map fst post"
    using X l by (simp add: run_calls_def run_log_def)
  have order: "Start ?c ''clusterctl'' (config_cluster_args d) \<in> set p
      \<and> Start ?c ''kubectl'' apply_args \<in> set p
      \<and> (c = Wait ?c ''clusterctl'' (config_cluster_args d)
         \<or> c = Wait ?c ''kubectl'' apply_args
           \<and> Wait ?c ''clusterctl'' (config_cluster_args d) \<in> set p)"
    if eq: "run_calls (capi_Up PD sys d (start_state w)) = p @ c # q" and w: "is_wait c"
    for p c q
  proof (rule pipe_order [where W = is_wait and A = "map fst A" and P = "map fst post"
        and M = "map fst mid" and q = q
        and a = "StdoutPipe ?c ''clusterctl'' (config_cluster_args d)"])
    show "prefix (map fst mid)
        [StdoutPipe ?c ''clusterctl'' (config_cluster_args d),
         Start ?c ''clusterctl'' (config_cluster_args d),
         Start ?c ''kubectl'' apply_args,
         Wait ?c ''clusterctl'' (config_cluster_args d),
         Wait ?c ''kubectl'' apply_args]"
      using mid by (simp add: pipe_calls_def)
    show "\<forall>y\<in>set (map fst A). \<not> is_wait y" using A by simp
    show "\<forall>y\<in>set (map fst post). \<not> is_wait y" using post by simp
    show "\<not> is_wait (StdoutPipe ?c ''clusterctl'' (config_cluster_args d))" by simp
    show "\<not> is_wait (Start ?c ''clusterctl'' (config_cluster_args d))" by simp
    show "\<not> is_wait (Start ?c ''kubectl'' apply_args)" by simp
    show "map fst A @ map fst mid @ map fst post = p @ c # q"
      using eq calls by simp
    show "is_wait c" by (rule w)
  qed
  have failing: "run_error (capi_Up PD sys d (start_state w)) \<noteq> None"
    if m: "(c, r) \<in> set (run_log (capi_Up PD sys d (start_state w)))"
      and w: "is_wait c" and f: "\<not> succeeded r"
    for c r
  proof -
    from m X l have "(c, r) \<in> set A \<or> (c, r) \<in> set mid \<or> (c, r) \<in> set post"
      by (simp add: run_log_def)
    moreover from A w have "(c, r) \<notin> set A" by force
    moreover from post w have "(c, r) \<notin> set post" by force
    ultimately have "(c, r) \<in> set mid" by blast
    with fail f have "e \<noteq> None" by force
    with X show ?thesis by (simp add: run_error_def)
  qed
  from order failing show ?thesis by blast
qed

text \<open>
  Which subprocesses of a run of \<open>Up\<close> carry the context of the timeout: all but the
  bootstrap create and \<open>clusterctl get kubeconfig\<close>.
\<close>

lemma own_subprocesses_carry_deadline:
  "\<forall>c\<in>set (run_calls (capi_Up PD sys d (start_state w))).
      subprocess_ctx c = None
    \<or> subprocess_ctx c
        = Some (if is_bootstrap_create c \<or> is_get_kubeconfig c then None
                else PD (upTimeout d))"
proof
  fix c
  assume c: "c \<in> set (run_calls (capi_Up PD sys d (start_state w)))"
  obtain e d' s' where X: "capi_Up PD sys d (start_state w) = (e, d', s')"
    by (cases "capi_Up PD sys d (start_state w)") auto
  from c X obtain ev where ev: "ev \<in> set (log s')" "fst ev = c"
    by (auto simp: run_calls_def run_log_def)
  from Up_call_kinds [OF X ev(1)] ev(2) consider
      "c = Exec None ''kind'' (kind_Up_args (kind d))"
    | "c = Output (PD (upTimeout d)) ''kubectl'' (providers_args d)"
    | "c = Exec (PD (upTimeout d)) ''clusterctl'' (init_args d)"
    | "c = Exec (PD (upTimeout d)) ''kubectl'' wait_available_args"
    | "c \<in> set (pipe_calls (PD (upTimeout d)) d)"
    | "tail_call (PD (upTimeout d)) c"
    by auto
  then show "subprocess_ctx c = None
    \<or> subprocess_ctx c
        = Some (if is_bootstrap_create c \<or> is_get_kubeconfig c then None
                else PD (upTimeout d))"
  proof cases
    case 1
    then show ?thesis by (simp add: create_is_bootstrap)
  next
    case 2
    then show ?thesis by simp
  next
    case 3
    then show ?thesis by simp
  next
    case 4
    then show ?thesis by simp
  next
    case 5
    from pipe_call_ctx [OF this] show ?thesis by simp
  next
    case 6
    from tail_call_ctx [OF this] show ?thesis .
  qed
qed

section \<open>The kind deployer: the build-type flag\<close>

text \<open>
  C9. The claim: whenever the \<open>build-type\<close> flag is set, \<open>Build\<close> passes
  \<open>--type <value>\<close> to \<open>kind build node-image\<close>. The code at the command line
  \<open>--build-type docker\<close>: the flag is registered with the address of \<open>nodeImage\<close>,
  so the deployer gets \<open>nodeImage = docker\<close>, \<open>buildType\<close> stays empty, and
  \<open>Build\<close> runs \<open>kind build node-image --image docker\<close> with no \<open>--type\<close>.
\<close>

theorem Build_ignores_build_type_flag:
  "kind_from_flags default_opts [(''build-type'', StringValue ''docker'')]
     = Some ((kind_New default_opts)\<lparr>nodeImage := ''docker''\<rparr>)
   \<and> kind_Build_args ((kind_New default_opts)\<lparr>nodeImage := ''docker''\<rparr>)
     = [''build'', ''node-image'', ''--image'', ''docker'']"
  by (simp add: kind_from_flags_def kind_New_simp kind_bindFlags_def StringVar_def IntVar_def
      store_def kind_zero_def kind_Build_args_def default_opts_def)

text \<open>
  C10, as stated, fails: the flag \<open>build-type\<close> given the empty value leaves
  \<open>nodeImage\<close> empty, and then neither \<open>Up\<close> nor \<open>Build\<close> passes an
  \<open>--image\<close> argument; and an \<open>image-name\<close> flag after it on the command line
  overwrites the same field, so \<open>Up\<close> passes that value, not the one of
  \<open>build-type\<close>.
\<close>

theorem build_type_flag_counterexample:
  "kind_from_flags default_opts [(''build-type'', StringValue '''')]
     = Some (kind_New default_opts)
   \<and> kind_Up_args (kind_New default_opts) = [''create'', ''cluster'', ''--name'', ''kind-kubetest2'']
   \<and> kind_Build_args (kind_New default_opts) = [''build'', ''node-image'']
   \<and> kind_from_flags default_opts
        [(''build-type'', StringValue ''docker''), (''image-name'', StringValue ''mine'')]
     = Some ((kind_New default_opts)\<lparr>nodeImage := ''mine''\<rparr>)
   \<and> kind_Up_args ((kind_New default_opts)\<lparr>nodeImage := ''mine''\<rparr>)
     = [''create'', ''cluster'', ''--name'', ''kind-kubetest2'', ''--image'', ''mine'']"
  by (simp add: kind_from_flags_def kind_New_simp kind_bindFlags_def StringVar_def IntVar_def
      store_def kind_zero_def kind_Build_args_def kind_Up_args_def default_opts_def)

text \<open>
  C10, amended. For every deployer made by parsing a command line: \<open>buildType\<close> is
  empty (no flag writes it); when the command line holds a \<open>build-type\<close> flag with a
  non-empty value \<open>X\<close> and no \<open>image-name\<close> or \<open>build-type\<close> flag after it,
  \<open>nodeImage\<close> is \<open>X\<close> and the argument vectors of \<open>Up\<close> and of \<open>Build\<close>
  both hold \<open>--image X\<close>; and unless the log level, the kube root or the node image
  is itself the string \<open>--type\<close>, the argument vector of \<open>Build\<close> holds no
  \<open>--type\<close>.
\<close>

theorem build_type_flag_sets_node_image:
  assumes "kind_from_flags opts cmdline = Some d"
  shows "buildType d = ''''
    \<and> (\<forall>pre X post.
          cmdline = pre @ (''build-type'', StringValue X) # post \<and> X \<noteq> ''''
          \<and> (\<forall>(n, v)\<in>set post. n \<noteq> ''image-name'' \<and> n \<noteq> ''build-type'')
          \<longrightarrow> nodeImage d = X
              \<and> sublist [''--image'', X] (kind_Up_args d)
              \<and> sublist [''--image'', X] (kind_Build_args d))
    \<and> (logLevel d \<noteq> ''--type'' \<and> kubeRoot d \<noteq> ''--type'' \<and> nodeImage d \<noteq> ''--type''
          \<longrightarrow> ''--type'' \<notin> set (kind_Build_args d))"
proof -
  have p: "Parse store kind_bindFlags cmdline (kind_New opts) = Some d"
    using assms by (simp add: kind_from_flags_def)
  have bt: "buildType d = ''''"
    using Parse_buildType [OF p] buildType_kind_New by simp
  have img: "nodeImage d = X \<and> sublist [''--image'', X] (kind_Up_args d)
               \<and> sublist [''--image'', X] (kind_Build_args d)"
    if c: "cmdline = pre @ (''build-type'', StringValue X) # post" and x: "X \<noteq> ''''"
      and post: "\<forall>(n, v)\<in>set post. n \<noteq> ''image-name'' \<and> n \<noteq> ''build-type''"
    for pre X post
  proof -
    have n: "nodeImage d = X"
      using Parse_build_type_flag [OF p [unfolded c] post] .
    with x have "nodeImage d \<noteq> ''''" by simp
    from Up_args_image [OF this] Build_args_image [OF this] n show ?thesis by simp
  qed
  have ty: "''--type'' \<notin> set (kind_Build_args d)"
    if "logLevel d \<noteq> ''--type''" "kubeRoot d \<noteq> ''--type''" "nodeImage d \<noteq> ''--type''"
    using Build_args_no_type [OF bt that] .
  from bt img ty show ?thesis by blast
qed

theorem build_type_flag_sets_node_image_witness:
  "kind_from_flags default_opts [(''build-type'', StringValue ''docker'')]
     = Some ((kind_New default_opts)\<lparr>nodeImage := ''docker''\<rparr>)
   \<and> buildType ((kind_New default_opts)\<lparr>nodeImage := ''docker''\<rparr>) = ''''
   \<and> sublist [''--image'', ''docker''] (kind_Up_args ((kind_New default_opts)\<lparr>nodeImage := ''docker''\<rparr>))
   \<and> sublist [''--image'', ''docker''] (kind_Build_args ((kind_New default_opts)\<lparr>nodeImage := ''docker''\<rparr>))
   \<and> ''--type'' \<notin> set (kind_Build_args ((kind_New default_opts)\<lparr>nodeImage := ''docker''\<rparr>))"
proof -
  let ?d = "(kind_New default_opts)\<lparr>nodeImage := ''docker''\<rparr>"
  have h: "kind_from_flags default_opts [(''build-type'', StringValue ''docker'')] = Some ?d"
    by (simp add: kind_from_flags_def kind_New_simp kind_bindFlags_def StringVar_def IntVar_def
      store_def kind_zero_def default_opts_def)
  note T = build_type_flag_sets_node_image [OF h]
  have a: "buildType ?d = ''''"
    using T by (rule conjunct1)
  have b: "nodeImage ?d = ''docker''
      \<and> sublist [''--image'', ''docker''] (kind_Up_args ?d)
      \<and> sublist [''--image'', ''docker''] (kind_Build_args ?d)"
    using T [THEN conjunct2, THEN conjunct1, rule_format, of "[]" "''docker''" "[]"] by simp
  have t: "''--type'' \<notin> set (kind_Build_args ?d)"
    using T [THEN conjunct2, THEN conjunct2, rule_format]
    by (simp add: kind_New_simp kind_zero_def)
  show ?thesis
    apply (rule conjI [OF h])
    apply (rule conjI [OF a])
    apply (rule conjI [OF b [THEN conjunct2, THEN conjunct1]])
    apply (rule conjI [OF b [THEN conjunct2, THEN conjunct2]])
    apply (rule t)
    done
qed

section \<open>The capi deployer: what Down deletes\<close>

text \<open>
  C8. The claim: the cluster object that \<open>Down\<close> deletes is the one named by
  \<open>workload-cluster-name\<close>. The code with no flag given: the workload cluster is
  \<open>capi-workload-cluster\<close>, and \<open>Down\<close> runs \<open>kubectl delete --ignore-not-found
  --wait cluster kind-kubetest2\<close>, the name of the bootstrap cluster
  (\<open>d.kind.ClusterName\<close>), then \<open>kind delete cluster --name kind-kubetest2\<close>.
\<close>

theorem Down_deletes_bootstrap_name:
  "capi_from_flags default_opts [] = Some (capi_New default_opts)
   \<and> workloadClusterName (capi_New default_opts) = ''capi-workload-cluster''
   \<and> map fst (log (snd (capi_Down always_ok (capi_New default_opts) (start_state ()))))
     = [Exec None ''kubectl''
          [''delete'', ''--ignore-not-found'', ''--wait'', ''cluster'', ''kind-kubetest2''],
        Exec None ''kind'' [''delete'', ''cluster'', ''--name'', ''kind-kubetest2'']]"
  by (simp add: capi_from_flags_def capi_New_simp kind_zero_def capi_Down_def capi_Down_args_def
      ExecJUnit_def ExecJUnitContext_def attempt_def perform_def always_ok_def succeeded_def
      start_state_def kind_Down_def kind_Down_args_def)

section \<open>The capi deployer: Down and Kubeconfig\<close>

text \<open>
  C1, as stated, fails: when the \<open>kubectl delete\<close> of the cluster object fails,
  \<open>Down\<close> returns that error and the bootstrap deployer's \<open>Down\<close> is not called.
  The only call of the run is the \<open>kubectl delete\<close>.
\<close>

theorem Down_stops_at_failed_delete:
  "capi_Down kubectl_fails (capi_New default_opts) (start_state ())
   = (Some (CallError
        (Exec None ''kubectl''
           [''delete'', ''--ignore-not-found'', ''--wait'', ''cluster'', ''kind-kubetest2''])
        (ExitError '''' ''error: timed out'')),
      \<lparr>world = (),
       log = [(Exec None ''kubectl''
                 [''delete'', ''--ignore-not-found'', ''--wait'', ''cluster'', ''kind-kubetest2''],
               ExitError '''' ''error: timed out'')]\<rparr>)"
  by (simp add: capi_New_simp kind_zero_def capi_Down_def capi_Down_args_def
      ExecJUnit_def ExecJUnitContext_def attempt_def perform_def kubectl_fails_def succeeded_def
      start_state_def kind_Down_def kind_Down_args_def)

text \<open>
  C1, amended. \<open>Down\<close> first runs the \<open>kubectl delete\<close> of the cluster object.
  When that command succeeds, \<open>Down\<close> then calls the bootstrap deployer's \<open>Down\<close>
  (\<open>kind delete cluster\<close>), once, and returns its result: no error when the
  \<open>kind delete\<close> succeeds, its error otherwise. When the \<open>kubectl delete\<close> fails,
  \<open>Down\<close> makes no other call and returns the error of the \<open>kubectl delete\<close>.
\<close>

theorem Down_returns_bootstrap_result:
  assumes "sys w (Exec None ''kubectl'' (capi_Down_args d)) = (r, w')"
      and "sys w' (Exec None ''kind'' (kind_Down_args (kind d))) = (r2, w'')"
  shows "calls (snd (capi_Down sys d (start_state w))) =
           (if succeeded r
            then [Exec None ''kubectl'' (capi_Down_args d),
                  Exec None ''kind'' (kind_Down_args (kind d))]
            else [Exec None ''kubectl'' (capi_Down_args d)])
       \<and> (\<not> succeeded r \<longrightarrow>
            fst (capi_Down sys d (start_state w))
              = Some (CallError (Exec None ''kubectl'' (capi_Down_args d)) r))
       \<and> (succeeded r \<longrightarrow>
            capi_Down sys d (start_state w)
              = kind_Down sys (kind d)
                  \<lparr>world = w', log = [(Exec None ''kubectl'' (capi_Down_args d), r)]\<rparr>
          \<and> fst (capi_Down sys d (start_state w))
              = (if succeeded r2 then None
                 else Some (CallError (Exec None ''kind'' (kind_Down_args (kind d))) r2)))"
  using assms
  by (simp add: capi_Down_def ExecJUnit_def ExecJUnitContext_def attempt_def perform_def
      start_state_def kind_Down_def calls_def split: prod.splits)

theorem Down_returns_bootstrap_result_witness:
  "kubectl_fails () (Exec None ''kubectl'' (capi_Down_args (capi_New default_opts)))
     = (ExitError '''' ''error: timed out'', ())
   \<and> \<not> succeeded (ExitError '''' ''error: timed out'')
   \<and> calls (snd (capi_Down kubectl_fails (capi_New default_opts) (start_state ())))
     = [Exec None ''kubectl'' (capi_Down_args (capi_New default_opts))]
   \<and> fst (capi_Down kubectl_fails (capi_New default_opts) (start_state ()))
     = Some (CallError (Exec None ''kubectl'' (capi_Down_args (capi_New default_opts)))
         (ExitError '''' ''error: timed out''))
   \<and> kind_fails () (Exec None ''kubectl'' (capi_Down_args (capi_New default_opts)))
     = (Success '''', ())
   \<and> kind_fails () (Exec None ''kind'' (kind_Down_args (kind (capi_New default_opts))))
     = (ExitError '''' ''ERROR: unknown cluster'', ())
   \<and> succeeded (Success '''')
   \<and> calls (snd (capi_Down kind_fails (capi_New default_opts) (start_state ())))
     = [Exec None ''kubectl'' (capi_Down_args (capi_New default_opts)),
        Exec None ''kind'' (kind_Down_args (kind (capi_New default_opts)))]
   \<and> fst (capi_Down kind_fails (capi_New default_opts) (start_state ()))
     = Some (CallError (Exec None ''kind'' (kind_Down_args (kind (capi_New default_opts))))
         (ExitError '''' ''ERROR: unknown cluster''))
   \<and> always_ok () (Exec None ''kind'' (kind_Down_args (kind (capi_New default_opts))))
     = (Success '''', ())
   \<and> fst (capi_Down always_ok (capi_New default_opts) (start_state ())) = None"
proof -
  let ?k = "Exec None ''kubectl'' (capi_Down_args (capi_New default_opts))"
  let ?b = "Exec None ''kind'' (kind_Down_args (kind (capi_New default_opts)))"
  have f: "kubectl_fails () ?k = (ExitError '''' ''error: timed out'', ())"
    by (simp add: kubectl_fails_def)
  have f2: "kubectl_fails () ?b = (Success '''', ())"
    by (simp add: kubectl_fails_def)
  have g: "kind_fails () ?k = (Success '''', ())"
    by (simp add: kind_fails_def)
  have g2: "kind_fails () ?b = (ExitError '''' ''ERROR: unknown cluster'', ())"
    by (simp add: kind_fails_def)
  have k: "always_ok () ?k = (Success '''', ())" and k2: "always_ok () ?b = (Success '''', ())"
    by (simp_all add: always_ok_def)
  have nf: "\<not> succeeded (ExitError '''' ''error: timed out'')"
    and nf2: "\<not> succeeded (ExitError '''' ''ERROR: unknown cluster'')"
    and ok: "succeeded (Success '''')"
    by (simp_all add: succeeded_def)
  note A = Down_returns_bootstrap_result [where sys = kubectl_fails and w = "()", OF f f2]
  note B = Down_returns_bootstrap_result [where sys = kind_fails and w = "()", OF g g2]
  note C = Down_returns_bootstrap_result [where sys = always_ok and w = "()", OF k k2]
  from A [THEN conjunct1] nf
  have a1: "calls (snd (capi_Down kubectl_fails (capi_New default_opts) (start_state ())))
     = [?k]"
    by simp
  note a2 = A [THEN conjunct2, THEN conjunct1, rule_format, OF nf]
  from B [THEN conjunct1] ok
  have b1: "calls (snd (capi_Down kind_fails (capi_New default_opts) (start_state ())))
     = [?k, ?b]"
    by simp
  from B [THEN conjunct2, THEN conjunct2, rule_format, OF ok, THEN conjunct2] nf2
  have b2: "fst (capi_Down kind_fails (capi_New default_opts) (start_state ()))
     = Some (CallError ?b (ExitError [] ''ERROR: unknown cluster''))"
    by simp
  from C [THEN conjunct2, THEN conjunct2, rule_format, OF ok, THEN conjunct2] ok
  have c2: "fst (capi_Down always_ok (capi_New default_opts) (start_state ())) = None"
    by simp
  from f nf a1 a2 g g2 ok b1 b2 k2 c2 show ?thesis
    by (intro conjI)
qed

text \<open>
  C6. The claim: when a step of the first resolution fails, \<open>Kubeconfig\<close> returns an
  error and the cached path is unchanged, so the next call fetches again. The code when
  \<open>clusterctl get kubeconfig\<close> fails: \<open>d.kubecfgPath\<close> was already set to the path
  in the new temporary directory (line 81, before the command runs), the call returns
  the error, and the next call returns that path with no error and without running any
  command; no file was written there.
\<close>

theorem Kubeconfig_caches_path_of_failed_fetch:
  "capi_Kubeconfig get_kubeconfig_fails (capi_New default_opts) (start_state ())
   = (Inl (CallError (Output None ''clusterctl'' [''get'', ''kubeconfig'', ''capi-workload-cluster''])
             (ExitError '''' ''Error: cluster not found'')),
      (capi_New default_opts)\<lparr>kubecfgPath := ''/tmp/kubetest2-capi123/kubeconfig.yaml''\<rparr>,
      \<lparr>world = (),
       log = [(TempDir '''' ''kubetest2-capi'', Success ''/tmp/kubetest2-capi123''),
              (Output None ''clusterctl'' [''get'', ''kubeconfig'', ''capi-workload-cluster''],
               ExitError '''' ''Error: cluster not found'')]\<rparr>)
   \<and> capi_Kubeconfig get_kubeconfig_fails
        ((capi_New default_opts)\<lparr>kubecfgPath := ''/tmp/kubetest2-capi123/kubeconfig.yaml''\<rparr>)
        \<lparr>world = (),
         log = [(TempDir '''' ''kubetest2-capi'', Success ''/tmp/kubetest2-capi123''),
                (Output None ''clusterctl'' [''get'', ''kubeconfig'', ''capi-workload-cluster''],
                 ExitError '''' ''Error: cluster not found'')]\<rparr>
   = (Inr ''/tmp/kubetest2-capi123/kubeconfig.yaml'',
      (capi_New default_opts)\<lparr>kubecfgPath := ''/tmp/kubetest2-capi123/kubeconfig.yaml''\<rparr>,
      \<lparr>world = (),
       log = [(TempDir '''' ''kubetest2-capi'', Success ''/tmp/kubetest2-capi123''),
              (Output None ''clusterctl'' [''get'', ''kubeconfig'', ''capi-workload-cluster''],
               ExitError '''' ''Error: cluster not found'')]\<rparr>)"
  by (simp add: capi_Kubeconfig_def capi_New_simp perform_def get_kubeconfig_fails_def
      start_state_def tmp_join Let_def)

text \<open>
  C7. With no \<open>kubecfgPath\<close> set, when a first call of \<open>Kubeconfig\<close> succeeds and
  returns the path \<open>p\<close>, a second call returns \<open>p\<close> again, changes nothing and
  makes no call to the outside: over both calls \<open>clusterctl get kubeconfig\<close> ran
  exactly once.
\<close>

theorem Kubeconfig_memoized:
  assumes "kubecfgPath d = ''''"
      and "capi_Kubeconfig sys d (start_state w) = (Inr p, d1, s1)"
  shows "capi_Kubeconfig sys d1 s1 = (Inr p, d1, s1)
       \<and> filter is_get_kubeconfig (calls (snd (snd (capi_Kubeconfig sys d1 s1))))
         = [Output None ''clusterctl'' [''get'', ''kubeconfig'', workloadClusterName d]]"
proof -
  from Kubeconfig_success [OF assms] obtain tmpdir lines written where
    p: "p = path_Join [tmpdir, ''kubeconfig.yaml'']" and
    d1: "d1 = d\<lparr>kubecfgPath := p\<rparr>" and
    l: "log s1 = log (start_state w) @
             [(TempDir '''' ''kubetest2-capi'', Success tmpdir),
              (Output None ''clusterctl'' [''get'', ''kubeconfig'', workloadClusterName d],
               Success lines),
              (WriteFile p lines 384, Success written)]"
    by blast
  have ne: "p \<noteq> ''''"
    unfolding p by (rule path_Join_nonempty [of "''kubeconfig.yaml''"]) simp_all
  have again: "capi_Kubeconfig sys d1 s1 = (Inr p, d1, s1)"
    using ne by (simp add: capi_Kubeconfig_def d1)
  have "filter is_get_kubeconfig (calls s1)
         = [Output None ''clusterctl'' [''get'', ''kubeconfig'', workloadClusterName d]]"
    by (simp add: calls_def l start_state_def)
  with again show ?thesis by simp
qed

theorem Kubeconfig_memoized_witness:
  "kubecfgPath (capi_New default_opts) = ''''
   \<and> capi_Kubeconfig get_kubeconfig_ok (capi_New default_opts) (start_state ())
     = (Inr ''/tmp/kubetest2-capi123/kubeconfig.yaml'',
        (capi_New default_opts)\<lparr>kubecfgPath := ''/tmp/kubetest2-capi123/kubeconfig.yaml''\<rparr>,
        \<lparr>world = (),
         log = [(TempDir '''' ''kubetest2-capi'', Success ''/tmp/kubetest2-capi123''),
                (Output None ''clusterctl'' [''get'', ''kubeconfig'', ''capi-workload-cluster''],
                 Success ''apiVersion: v1''),
                (WriteFile ''/tmp/kubetest2-capi123/kubeconfig.yaml'' ''apiVersion: v1'' 384,
                 Success '''')]\<rparr>)
   \<and> fst (capi_Kubeconfig get_kubeconfig_ok
        ((capi_New default_opts)\<lparr>kubecfgPath := ''/tmp/kubetest2-capi123/kubeconfig.yaml''\<rparr>)
        \<lparr>world = (),
         log = [(TempDir '''' ''kubetest2-capi'', Success ''/tmp/kubetest2-capi123''),
                (Output None ''clusterctl'' [''get'', ''kubeconfig'', ''capi-workload-cluster''],
                 Success ''apiVersion: v1''),
                (WriteFile ''/tmp/kubetest2-capi123/kubeconfig.yaml'' ''apiVersion: v1'' 384,
                 Success '''')]\<rparr>)
     = Inr ''/tmp/kubetest2-capi123/kubeconfig.yaml''"
proof -
  have e: "kubecfgPath (capi_New default_opts) = ''''"
    by (simp add: capi_New_simp)
  have f: "capi_Kubeconfig get_kubeconfig_ok (capi_New default_opts) (start_state ())
     = (Inr ''/tmp/kubetest2-capi123/kubeconfig.yaml'',
        (capi_New default_opts)\<lparr>kubecfgPath := ''/tmp/kubetest2-capi123/kubeconfig.yaml''\<rparr>,
        \<lparr>world = (),
         log = [(TempDir '''' ''kubetest2-capi'', Success ''/tmp/kubetest2-capi123''),
                (Output None ''clusterctl'' [''get'', ''kubeconfig'', ''capi-workload-cluster''],
                 Success ''apiVersion: v1''),
                (WriteFile ''/tmp/kubetest2-capi123/kubeconfig.yaml'' ''apiVersion: v1'' 384,
                 Success '''')]\<rparr>)"
    by (simp add: capi_Kubeconfig_def capi_New_simp perform_def attempt_def succeeded_def
        get_kubeconfig_ok_def start_state_def tmp_join Let_def)
  from Kubeconfig_memoized [OF e f] e f show ?thesis by simp
qed

section \<open>The capi deployer: Up\<close>

text \<open>
  C2. In every run of \<open>Up\<close>, once the wait for the deployments has succeeded, the calls
  that follow are those of the pipe, in the order of the source: the pipe of
  \<open>clusterctl config cluster\<close>, its start, the start of \<open>kubectl apply -f -\<close>, the
  wait on \<open>clusterctl\<close>, the wait on \<open>kubectl\<close>. Each is made exactly when the one
  before it succeeded; when one of them fails it is the last call of the run and \<open>Up\<close>
  returns its error; when all five succeed the run goes on with the wait for the
  workload cluster. A run that ends without error holds the five calls, all successful.
  So in any run a wait is made only after both processes were started, the wait on
  \<open>kubectl\<close> only after the wait on \<open>clusterctl\<close>, and a wait that reports a failure
  makes \<open>Up\<close> return an error.
\<close>

theorem pipe_runs_start_to_wait:
  "(\<forall>pre r rest.
      run_log (capi_Up PD sys d (start_state w))
        = pre @ (Exec (PD (upTimeout d)) ''kubectl'' wait_available_args, r) # rest
      \<and> succeeded r \<longrightarrow>
        (\<exists>mid post.
           rest = mid @ post \<and> mid \<noteq> []
         \<and> prefix (map fst mid) (pipe_calls (PD (upTimeout d)) d)
         \<and> (\<forall>ev\<in>set (butlast mid). succeeded (snd ev))
         \<and> (if succeeded (snd (last mid))
             then map fst mid = pipe_calls (PD (upTimeout d)) d \<and> post \<noteq> []
                \<and> fst (hd post) = Exec (PD (upTimeout d)) ''kubectl'' (wait_ready_args d)
             else post = []
                \<and> run_error (capi_Up PD sys d (start_state w))
                    = Some (CallError (fst (last mid)) (snd (last mid))))))
   \<and> (run_error (capi_Up PD sys d (start_state w)) = None \<longrightarrow>
        (\<exists>pre mid post.
           run_log (capi_Up PD sys d (start_state w)) = pre @ mid @ post
         \<and> map fst mid = pipe_calls (PD (upTimeout d)) d
         \<and> (\<forall>ev\<in>set mid. succeeded (snd ev))))
   \<and> (\<forall>pre c post.
        run_calls (capi_Up PD sys d (start_state w)) = pre @ c # post \<and> is_wait c \<longrightarrow>
          Start (PD (upTimeout d)) ''clusterctl'' (config_cluster_args d) \<in> set pre
        \<and> Start (PD (upTimeout d)) ''kubectl'' apply_args \<in> set pre
        \<and> (c = Wait (PD (upTimeout d)) ''clusterctl'' (config_cluster_args d)
           \<or> c = Wait (PD (upTimeout d)) ''kubectl'' apply_args
             \<and> Wait (PD (upTimeout d)) ''clusterctl'' (config_cluster_args d) \<in> set pre))
   \<and> (\<forall>c r.
        (c, r) \<in> set (run_log (capi_Up PD sys d (start_state w))) \<and> is_wait c
        \<and> \<not> succeeded r \<longrightarrow>
          run_error (capi_Up PD sys d (start_state w)) \<noteq> None)"
proof -
  let ?c = "PD (upTimeout d)"
  let ?w = "Exec ?c ''kubectl'' wait_available_args"
  obtain e d' s' where X: "capi_Up PD sys d (start_state w) = (e, d', s')"
    by (cases "capi_Up PD sys d (start_state w)") auto
  have rl: "run_log (capi_Up PD sys d (start_state w)) = log s'"
    and re: "run_error (capi_Up PD sys d (start_state w)) = e"
    using X by (simp_all add: run_log_def run_error_def)
  from Up_exact [OF X] obtain P W where
    l: "log s' = P @ W" and
    nP: "\<forall>ev\<in>set P. fst ev \<noteq> ?w" and
    W: "W = [] \<and> e \<noteq> None \<or> from_wait ?c d e W"
    by (elim exE conjE) (rule that)
  have step: "\<exists>mid post.
           rest = mid @ post \<and> mid \<noteq> []
         \<and> prefix (map fst mid) (pipe_calls ?c d)
         \<and> (\<forall>ev\<in>set (butlast mid). succeeded (snd ev))
         \<and> (if succeeded (snd (last mid))
             then map fst mid = pipe_calls ?c d \<and> post \<noteq> []
                \<and> fst (hd post) = Exec ?c ''kubectl'' (wait_ready_args d)
             else post = []
                \<and> run_error (capi_Up PD sys d (start_state w))
                    = Some (CallError (fst (last mid)) (snd (last mid))))"
    if eq: "run_log (capi_Up PD sys d (start_state w)) = pre @ (?w, r) # rest"
      and ok: "succeeded r"
    for pre r rest
  proof -
    have "(?w, r) \<in> set (log s')" using eq rl by simp
    with l nP have "(?w, r) \<in> set W" by force
    with W have "from_wait ?c d e W" by auto
    then obtain r' tail where
      W': "W = (?w, r') # tail" and
      nt: "\<forall>ev\<in>set tail. fst ev \<noteq> ?w" and
      pr: "if succeeded r' then pipe_run ?c d e tail else tail = [] \<and> e \<noteq> None"
      unfolding from_wait_def by (elim exE conjE) (rule that)
    from eq rl l W' have "P @ (?w, r') # tail = pre @ (?w, r) # rest" by simp
    from locate [OF this nP nt] have same: "r = r'" "rest = tail" by simp_all
    with pr ok have "pipe_run ?c d e rest" by simp
    then obtain mid post where
      f: "rest = mid @ post" "mid \<noteq> []" "prefix (map fst mid) (pipe_calls ?c d)"
         "\<forall>ev\<in>set (butlast mid). succeeded (snd ev)"
         "if succeeded (snd (last mid))
          then map fst mid = pipe_calls ?c d \<and> post \<noteq> []
             \<and> fst (hd post) = Exec ?c ''kubectl'' (wait_ready_args d)
          else post = [] \<and> e = Some (CallError (fst (last mid)) (snd (last mid)))"
      unfolding pipe_run_def by (elim exE conjE) (rule that)
    show ?thesis
      by (rule exI [of _ mid], rule exI [of _ post]) (use f re in simp)
  qed
  have complete: "\<exists>pre mid post.
           run_log (capi_Up PD sys d (start_state w)) = pre @ mid @ post
         \<and> map fst mid = pipe_calls ?c d
         \<and> (\<forall>ev\<in>set mid. succeeded (snd ev))"
    if n: "run_error (capi_Up PD sys d (start_state w)) = None"
  proof -
    from n re have e: "e = None" by simp
    with W have "from_wait ?c d e W" by auto
    then obtain r' tail where
      W': "W = (?w, r') # tail" and
      pr: "if succeeded r' then pipe_run ?c d e tail else tail = [] \<and> e \<noteq> None"
      unfolding from_wait_def by (elim exE conjE) (rule that)
    from pr e have "pipe_run ?c d e tail" by (auto split: if_splits)
    then obtain mid post where
      f: "tail = mid @ post" "mid \<noteq> []"
         "\<forall>ev\<in>set (butlast mid). succeeded (snd ev)"
         "if succeeded (snd (last mid))
          then map fst mid = pipe_calls ?c d \<and> post \<noteq> []
             \<and> fst (hd post) = Exec ?c ''kubectl'' (wait_ready_args d)
          else post = [] \<and> e = Some (CallError (fst (last mid)) (snd (last mid)))"
      unfolding pipe_run_def by (elim exE conjE) (rule that)
    from f(4) e have sl: "succeeded (snd (last mid))" and full: "map fst mid = pipe_calls ?c d"
      by (auto split: if_splits)
    have "mid = butlast mid @ [last mid]" using f(2) by simp
    then have "set mid = set (butlast mid) \<union> {last mid}"
      by (metis Un_insert_right list.simps(15) set_append sup_bot.right_neutral empty_set)
    with f(3) sl have all: "\<forall>ev\<in>set mid. succeeded (snd ev)" by auto
    show ?thesis
      by (rule exI [of _ "P @ [(?w, r')]"], rule exI [of _ mid], rule exI [of _ post])
         (use rl l W' f(1) full all in simp)
  qed
  note old = waits_follow_starts [of PD sys d w]
  from step complete old show ?thesis by blast
qed

theorem pipe_runs_start_to_wait_witness:
  "run_log (capi_Up parse_30m apply_fails (capi_New default_opts) (start_state ()))
     = take 3 (run_log (capi_Up parse_30m apply_fails (capi_New default_opts) (start_state ())))
       @ (Exec (Some 1800000000000) ''kubectl'' wait_available_args, Success '''')
       # drop 4 (run_log (capi_Up parse_30m apply_fails (capi_New default_opts)
                   (start_state ())))
   \<and> succeeded (Success '''')
   \<and> run_error (capi_Up parse_30m apply_fails (capi_New default_opts) (start_state ()))
       = Some (CallError (Wait (Some 1800000000000) ''kubectl'' [''apply'', ''-f'', ''-''])
                (ExitError '''' ''exit status 1''))
   \<and> run_error (capi_Up parse_30m always_ok (capi_New default_opts) (start_state ())) = None
   \<and> Wait (Some 1800000000000) ''kubectl'' [''apply'', ''-f'', ''-'']
       \<in> set (run_calls (capi_Up parse_30m always_ok (capi_New default_opts) (start_state ())))
   \<and> run_calls (capi_Up parse_30m always_ok (capi_New default_opts) (start_state ()))
     = take 8 (run_calls (capi_Up parse_30m always_ok (capi_New default_opts) (start_state ())))
       @ Wait (Some 1800000000000) ''kubectl'' [''apply'', ''-f'', ''-'']
       # drop 9 (run_calls (capi_Up parse_30m always_ok (capi_New default_opts) (start_state ())))
   \<and> is_wait (Wait (Some 1800000000000) ''kubectl'' [''apply'', ''-f'', ''-''])
   \<and> Start (Some 1800000000000) ''clusterctl'' (config_cluster_args (capi_New default_opts))
       \<in> set (take 8
           (run_calls (capi_Up parse_30m always_ok (capi_New default_opts) (start_state ()))))
   \<and> Start (Some 1800000000000) ''kubectl'' [''apply'', ''-f'', ''-'']
       \<in> set (take 8
           (run_calls (capi_Up parse_30m always_ok (capi_New default_opts) (start_state ()))))
   \<and> Wait (Some 1800000000000) ''clusterctl'' (config_cluster_args (capi_New default_opts))
       \<in> set (take 8
           (run_calls (capi_Up parse_30m always_ok (capi_New default_opts) (start_state ()))))
   \<and> (Wait (Some 1800000000000) ''kubectl'' [''apply'', ''-f'', ''-''],
       ExitError '''' ''exit status 1'')
       \<in> set (run_log (capi_Up parse_30m apply_fails (capi_New default_opts) (start_state ())))
   \<and> \<not> succeeded (ExitError '''' ''exit status 1'')
   \<and> run_error (capi_Up parse_30m apply_fails (capi_New default_opts) (start_state ()))
       \<noteq> None"
proof -
  let ?X = "capi_Up parse_30m always_ok (capi_New default_opts) (start_state ())"
  let ?Y = "capi_Up parse_30m apply_fails (capi_New default_opts) (start_state ())"
  let ?T = "Some (1800000000000::int)"
  let ?w = "Wait ?T ''kubectl'' [''apply'', ''-f'', ''-'']"
  let ?a = "Exec ?T ''kubectl'' wait_available_args"
  have t: "parse_30m (upTimeout (capi_New default_opts)) = ?T"
    by (simp add: capi_New_simp parse_30m_def)
  note TX = pipe_runs_start_to_wait [of parse_30m always_ok "capi_New default_opts" "()",
      unfolded t]
  note TY = pipe_runs_start_to_wait [of parse_30m apply_fails "capi_New default_opts" "()",
      unfolded t]
  \<comment> \<open>the step after a successful wait for the deployments, in the world where the apply fails\<close>
  have h1: "run_log ?Y = take 3 (run_log ?Y) @ (?a, Success []) # drop 4 (run_log ?Y)
      \<and> succeeded (Success [])"
    by (simp add: run_defs apply_fails_def)
  have rest: "drop 4 (run_log ?Y)
      = [(StdoutPipe ?T ''clusterctl'' (config_cluster_args (capi_New default_opts)), Success []),
         (Start ?T ''clusterctl'' (config_cluster_args (capi_New default_opts)), Success []),
         (Start ?T ''kubectl'' apply_args, Success []),
         (Wait ?T ''clusterctl'' (config_cluster_args (capi_New default_opts)), Success []),
         (Wait ?T ''kubectl'' apply_args, ExitError [] ''exit status 1'')]"
    by (simp add: run_defs apply_fails_def)
  from TY [THEN conjunct1, rule_format, OF h1] obtain mid post where
    m: "drop 4 (run_log ?Y) = mid @ post" "mid \<noteq> []"
       "prefix (map fst mid) (pipe_calls ?T (capi_New default_opts))"
       "if succeeded (snd (last mid))
        then map fst mid = pipe_calls ?T (capi_New default_opts) \<and> post \<noteq> []
           \<and> fst (hd post) = Exec ?T ''kubectl'' (wait_ready_args (capi_New default_opts))
        else post = []
           \<and> run_error ?Y = Some (CallError (fst (last mid)) (snd (last mid)))"
    by (elim exE conjE) (rule that)
  have nf: "\<not> succeeded (snd (last mid))"
  proof
    assume s: "succeeded (snd (last mid))"
    with m(4) have "length mid = 5" "post \<noteq> []"
      by (simp_all add: pipe_calls_def flip: length_map [of fst mid])
    moreover have "length (mid @ post) = 5"
      unfolding m(1) [symmetric] rest by simp
    then have "length mid + length post = 5" by simp
    ultimately show False by simp
  qed
  with m(4) have p: "post = []"
    and er: "run_error ?Y = Some (CallError (fst (last mid)) (snd (last mid)))"
    by simp_all
  from p m(1) rest have "mid
      = [(StdoutPipe ?T ''clusterctl'' (config_cluster_args (capi_New default_opts)), Success []),
         (Start ?T ''clusterctl'' (config_cluster_args (capi_New default_opts)), Success []),
         (Start ?T ''kubectl'' apply_args, Success []),
         (Wait ?T ''clusterctl'' (config_cluster_args (capi_New default_opts)), Success []),
         (Wait ?T ''kubectl'' apply_args, ExitError [] ''exit status 1'')]"
    by simp
  then have "last mid = (Wait ?T ''kubectl'' apply_args, ExitError [] ''exit status 1'')"
    by simp
  with er have c1: "run_error ?Y = Some (CallError ?w (ExitError [] ''exit status 1''))"
    by (simp add: apply_args_def)
  \<comment> \<open>a run without error holds the calls of the pipe\<close>
  have h2: "run_error ?X = None"
    by (simp add: run_defs always_ok_def)
  from TX [THEN conjunct2, THEN conjunct1, rule_format, OF h2] obtain pre mid2 post2 where
    x: "run_log ?X = pre @ mid2 @ post2"
       "map fst mid2 = pipe_calls ?T (capi_New default_opts)"
    by (elim exE conjE) (rule that)
  have "?w \<in> set (pipe_calls ?T (capi_New default_opts))"
    by (simp add: pipe_calls_def apply_args_def)
  with x(2) have "?w \<in> set (map fst mid2)" by simp
  with x(1) have c2: "?w \<in> set (run_calls ?X)"
    by (simp add: run_calls_def)
  \<comment> \<open>the order of starts and waits\<close>
  have a: "run_calls ?X = take 8 (run_calls ?X) @ ?w # drop 9 (run_calls ?X) \<and> is_wait ?w"
    by (simp add: run_defs always_ok_def)
  have f: "(?w, ExitError [] ''exit status 1'') \<in> set (run_log ?Y) \<and> is_wait ?w
      \<and> \<not> succeeded (ExitError [] ''exit status 1'')"
    by (simp add: run_defs apply_fails_def)
  from TX [THEN conjunct2, THEN conjunct2, THEN conjunct1, rule_format, OF a]
  have o: "Start ?T ''clusterctl'' (config_cluster_args (capi_New default_opts))
       \<in> set (take 8 (run_calls ?X))
     \<and> Start ?T ''kubectl'' [''apply'', ''-f'', ''-''] \<in> set (take 8 (run_calls ?X))
     \<and> Wait ?T ''clusterctl'' (config_cluster_args (capi_New default_opts))
       \<in> set (take 8 (run_calls ?X))"
    by (simp add: apply_args_def)
  note g = TY [THEN conjunct2, THEN conjunct2, THEN conjunct2, rule_format, OF f]
  from h1 c1 h2 c2 a o f g show ?thesis by simp
qed

text \<open>
  C3. In a run of \<open>Up\<close> where the provider query succeeded: when it printed
  something, no \<open>clusterctl init\<close> is called; when it printed nothing,
  \<open>clusterctl init --infrastructure <provider>\<close> is called exactly once.
\<close>

theorem init_exactly_when_query_prints_nothing:
  assumes "(Output ctx ''kubectl'' (providers_args d), Success lines)
             \<in> set (run_log (capi_Up PD sys d (start_state w)))"
  shows "filter is_init (run_calls (capi_Up PD sys d (start_state w)))
           = (if lines = '''' then [Exec ctx ''clusterctl'' (init_args d)] else [])"
proof -
  obtain e d' s' where X: "capi_Up PD sys d (start_state w) = (e, d', s')"
    by (cases "capi_Up PD sys d (start_state w)") auto
  from assms X have m: "(Output ctx ''kubectl'' (providers_args d), Success lines) \<in> set (log s')"
    by (simp add: run_log_def)
  from X m obtain boot rest where
    l: "log s' = boot @ (Output ctx ''kubectl'' (providers_args d), Success lines) # rest" and
    b: "\<forall>ev\<in>set boot. \<not> is_init (fst ev)" and
    ok: "succeeded (Success lines) \<or> tolerated (Success lines) \<longrightarrow>
       rest \<noteq> []
       \<and> fst (hd rest) = (if stdout_of (Success lines) = []
                           then Exec ctx ''clusterctl'' (init_args d)
                           else Exec ctx ''kubectl'' wait_available_args)
       \<and> filter is_init (map fst rest)
           = (if stdout_of (Success lines) = [] then [Exec ctx ''clusterctl'' (init_args d)]
              else [])"
    by (rule Up_query_entry)
  from ok have r: "filter is_init (map fst rest)
           = (if lines = [] then [Exec ctx ''clusterctl'' (init_args d)] else [])"
    by (simp add: succeeded_def)
  from b have "filter is_init (map fst boot) = []"
    by (simp add: filter_empty_conv)
  with r l X show ?thesis
    by (simp add: run_calls_def run_log_def)
qed

theorem init_exactly_when_query_prints_nothing_witness:
  "(Output (Some 1800000000000) ''kubectl'' (providers_args (capi_New default_opts)), Success '''')
     \<in> set (run_log (capi_Up parse_30m always_ok (capi_New default_opts) (start_state ())))
   \<and> filter is_init
        (run_calls (capi_Up parse_30m always_ok (capi_New default_opts) (start_state ())))
     = [Exec (Some 1800000000000) ''clusterctl'' [''init'', ''--infrastructure'', '''']]
   \<and> (Output (Some 1800000000000) ''kubectl'' (providers_args (capi_New default_opts)),
       Success ''capd-system infrastructure-docker'')
     \<in> set (run_log (capi_Up parse_30m query_finds_provider (capi_New default_opts)
                      (start_state ())))
   \<and> filter is_init
        (run_calls (capi_Up parse_30m query_finds_provider (capi_New default_opts)
           (start_state ())))
     = []"
proof -
  have a: "(Output (Some 1800000000000) ''kubectl'' (providers_args (capi_New default_opts)),
       Success '''')
     \<in> set (run_log (capi_Up parse_30m always_ok (capi_New default_opts) (start_state ())))"
    by (simp add: run_defs always_ok_def)
  have b: "(Output (Some 1800000000000) ''kubectl'' (providers_args (capi_New default_opts)),
       Success ''capd-system infrastructure-docker'')
     \<in> set (run_log (capi_Up parse_30m query_finds_provider (capi_New default_opts)
                      (start_state ())))"
    by (simp add: run_defs query_finds_provider_def)
  from init_exactly_when_query_prints_nothing [OF a]
  have a': "filter is_init
        (run_calls (capi_Up parse_30m always_ok (capi_New default_opts) (start_state ())))
     = [Exec (Some 1800000000000) ''clusterctl'' [''init'', ''--infrastructure'', '''']]"
    by (simp add: init_args_def capi_New_simp)
  from init_exactly_when_query_prints_nothing [OF b]
  have b': "filter is_init
        (run_calls (capi_Up parse_30m query_finds_provider (capi_New default_opts)
           (start_state ())))
     = []"
    by simp
  from a a' b b' show ?thesis by (intro conjI)
qed

text \<open>
  C4, as stated, fails: a provider query that exits with the error of a missing resource
  type after it has printed something does not end \<open>Up\<close>, but it is not treated as
  "not installed" either: \<open>init\<close> is skipped, because \<open>Up\<close> decides on the
  captured standard output alone, and the run goes on to the waits and the pipe.
\<close>

theorem Up_skips_init_after_tolerated_failure:
  "run_log (capi_Up parse_30m query_fails_after_output (capi_New default_opts) (start_state ()))
   = [(Exec None ''kind'' [''create'', ''cluster'', ''--name'', ''kind-kubetest2''], Success ''''),
      (Output (Some 1800000000000) ''kubectl''
         [''get'', ''providers'', ''--all-namespaces'',
          ''--field-selector=metadata.name=infrastructure-'', ''--ignore-not-found''],
       ExitError ''NAMESPACE NAME''
         ''error: the server doesn't have a resource type providers''),
      (Exec (Some 1800000000000) ''kubectl''
         [''wait'', ''--for=condition=Available'', ''--all'', ''--all-namespaces'',
          ''deployment'', ''--timeout=-1m''], Success ''''),
      (StdoutPipe (Some 1800000000000) ''clusterctl''
         [''config'', ''cluster'', ''capi-workload-cluster'', ''--infrastructure'', '''',
          ''--kubernetes-version'', '''', ''--worker-machine-count'', ''1'',
          ''--control-plane-machine-count'', ''1'', ''--flavor'', ''''], Success ''''),
      (Start (Some 1800000000000) ''clusterctl''
         [''config'', ''cluster'', ''capi-workload-cluster'', ''--infrastructure'', '''',
          ''--kubernetes-version'', '''', ''--worker-machine-count'', ''1'',
          ''--control-plane-machine-count'', ''1'', ''--flavor'', ''''], Success ''''),
      (Start (Some 1800000000000) ''kubectl'' [''apply'', ''-f'', ''-''], Success ''''),
      (Wait (Some 1800000000000) ''clusterctl''
         [''config'', ''cluster'', ''capi-workload-cluster'', ''--infrastructure'', '''',
          ''--kubernetes-version'', '''', ''--worker-machine-count'', ''1'',
          ''--control-plane-machine-count'', ''1'', ''--flavor'', ''''], Success ''''),
      (Wait (Some 1800000000000) ''kubectl'' [''apply'', ''-f'', ''-''], Success ''''),
      (Exec (Some 1800000000000) ''kubectl''
         [''wait'', ''--for=condition=Ready'', ''cluster/capi-workload-cluster'',
          ''--timeout=-1m''], Success '''')]
   \<and> run_error
       (capi_Up parse_30m query_fails_after_output (capi_New default_opts) (start_state ()))
     = None
   \<and> bytes_Contains ''error: the server doesn't have a resource type providers''
       ''the server doesn't have a resource type''"
  by (simp add: run_defs query_fails_after_output_def)

text \<open>
  C4, amended. When the provider query fails with an exit error whose standard error
  holds \<open>the server doesn't have a resource type\<close>, \<open>Up\<close> goes on: the next call is
  \<open>clusterctl init\<close> when the captured standard output is empty (then \<open>init\<close> is
  called exactly once) and the wait for the deployments otherwise (then \<open>init\<close> is
  not called). After every other failure of the query \<open>Up\<close> returns an error and the
  query is its last call.
\<close>

theorem query_failure_tolerated_or_fatal:
  assumes "(Output ctx ''kubectl'' (providers_args d), r)
             \<in> set (run_log (capi_Up PD sys d (start_state w)))"
      and "\<not> succeeded r"
  shows "(tolerated r \<longrightarrow>
            (\<exists>boot rest.
               run_log (capi_Up PD sys d (start_state w))
                 = boot @ (Output ctx ''kubectl'' (providers_args d), r) # rest
             \<and> rest \<noteq> []
             \<and> fst (hd rest) = (if stdout_of r = '''' then Exec ctx ''clusterctl'' (init_args d)
                                 else Exec ctx ''kubectl'' wait_available_args))
          \<and> filter is_init (run_calls (capi_Up PD sys d (start_state w)))
              = (if stdout_of r = '''' then [Exec ctx ''clusterctl'' (init_args d)] else []))
       \<and> (\<not> tolerated r \<longrightarrow>
            run_error (capi_Up PD sys d (start_state w)) \<noteq> None
          \<and> last (run_log (capi_Up PD sys d (start_state w)))
              = (Output ctx ''kubectl'' (providers_args d), r))"
proof -
  obtain e d' s' where X: "capi_Up PD sys d (start_state w) = (e, d', s')"
    by (cases "capi_Up PD sys d (start_state w)") auto
  from assms(1) X have m: "(Output ctx ''kubectl'' (providers_args d), r) \<in> set (log s')"
    by (simp add: run_log_def)
  from X m obtain boot rest where
    l: "log s' = boot @ (Output ctx ''kubectl'' (providers_args d), r) # rest" and
    b: "\<forall>ev\<in>set boot. \<not> is_init (fst ev)" and
    ok: "succeeded r \<or> tolerated r \<longrightarrow>
       rest \<noteq> []
       \<and> fst (hd rest) = (if stdout_of r = [] then Exec ctx ''clusterctl'' (init_args d)
                           else Exec ctx ''kubectl'' wait_available_args)
       \<and> filter is_init (map fst rest)
           = (if stdout_of r = [] then [Exec ctx ''clusterctl'' (init_args d)] else [])" and
    bad: "\<not> (succeeded r \<or> tolerated r) \<longrightarrow> rest = [] \<and> e \<noteq> None"
    by (rule Up_query_entry)
  have fb: "filter is_init (map fst boot) = []"
    using b by (simp add: filter_empty_conv)
  have rl: "run_log (capi_Up PD sys d (start_state w))
              = boot @ (Output ctx ''kubectl'' (providers_args d), r) # rest"
    using X l by (simp add: run_log_def)
  have t: "(\<exists>boot rest.
               run_log (capi_Up PD sys d (start_state w))
                 = boot @ (Output ctx ''kubectl'' (providers_args d), r) # rest
             \<and> rest \<noteq> []
             \<and> fst (hd rest) = (if stdout_of r = [] then Exec ctx ''clusterctl'' (init_args d)
                                 else Exec ctx ''kubectl'' wait_available_args))
          \<and> filter is_init (run_calls (capi_Up PD sys d (start_state w)))
              = (if stdout_of r = [] then [Exec ctx ''clusterctl'' (init_args d)] else [])"
    if "tolerated r"
  proof
    from ok that have
      "run_log (capi_Up PD sys d (start_state w))
                 = boot @ (Output ctx ''kubectl'' (providers_args d), r) # rest
             \<and> rest \<noteq> []
             \<and> fst (hd rest) = (if stdout_of r = [] then Exec ctx ''clusterctl'' (init_args d)
                                 else Exec ctx ''kubectl'' wait_available_args)"
      using rl by simp
    then show "\<exists>boot rest.
               run_log (capi_Up PD sys d (start_state w))
                 = boot @ (Output ctx ''kubectl'' (providers_args d), r) # rest
             \<and> rest \<noteq> []
             \<and> fst (hd rest) = (if stdout_of r = [] then Exec ctx ''clusterctl'' (init_args d)
                                 else Exec ctx ''kubectl'' wait_available_args)"
      by (intro exI)
    from ok that fb show "filter is_init (run_calls (capi_Up PD sys d (start_state w)))
              = (if stdout_of r = [] then [Exec ctx ''clusterctl'' (init_args d)] else [])"
      by (simp add: run_calls_def rl)
  qed
  have f: "run_error (capi_Up PD sys d (start_state w)) \<noteq> None
          \<and> last (run_log (capi_Up PD sys d (start_state w)))
              = (Output ctx ''kubectl'' (providers_args d), r)"
    if "\<not> tolerated r"
    using bad that assms(2) X rl by (simp add: run_error_def)
  from t f show ?thesis by blast
qed

theorem query_failure_tolerated_or_fatal_witness:
  "(Output (Some 1800000000000) ''kubectl'' (providers_args (capi_New default_opts)),
    ExitError '''' ''error: the server doesn't have a resource type providers'')
     \<in> set (run_log (capi_Up parse_30m query_fails_no_resource (capi_New default_opts)
                      (start_state ())))
   \<and> \<not> succeeded (ExitError '''' ''error: the server doesn't have a resource type providers'')
   \<and> tolerated (ExitError '''' ''error: the server doesn't have a resource type providers'')
   \<and> filter is_init
        (run_calls (capi_Up parse_30m query_fails_no_resource (capi_New default_opts)
           (start_state ())))
     = [Exec (Some 1800000000000) ''clusterctl'' [''init'', ''--infrastructure'', '''']]
   \<and> (Output (Some 1800000000000) ''kubectl'' (providers_args (capi_New default_opts)),
       ExitError '''' ''The connection to the server localhost:8080 was refused'')
     \<in> set (run_log (capi_Up parse_30m query_refused (capi_New default_opts) (start_state ())))
   \<and> \<not> tolerated (ExitError '''' ''The connection to the server localhost:8080 was refused'')
   \<and> run_error (capi_Up parse_30m query_refused (capi_New default_opts) (start_state ()))
       \<noteq> None
   \<and> last (run_log (capi_Up parse_30m query_refused (capi_New default_opts) (start_state ())))
     = (Output (Some 1800000000000) ''kubectl'' (providers_args (capi_New default_opts)),
        ExitError '''' ''The connection to the server localhost:8080 was refused'')"
proof -
  let ?q = "Output (Some 1800000000000) ''kubectl'' (providers_args (capi_New default_opts))"
  let ?r1 = "ExitError '''' ''error: the server doesn't have a resource type providers''"
  let ?r2 = "ExitError '''' ''The connection to the server localhost:8080 was refused''"
  have a: "(?q, ?r1)
     \<in> set (run_log (capi_Up parse_30m query_fails_no_resource (capi_New default_opts)
                      (start_state ())))"
    by (simp add: run_defs query_fails_no_resource_def)
  have b: "(?q, ?r2)
     \<in> set (run_log (capi_Up parse_30m query_refused (capi_New default_opts) (start_state ())))"
    by (simp add: run_defs query_refused_def)
  have n1: "\<not> succeeded ?r1" and n2: "\<not> succeeded ?r2"
    by (simp_all add: succeeded_def)
  have t1: "tolerated ?r1" by (simp add: no_resource_type_def)
  have t2: "\<not> tolerated ?r2" by (simp add: no_resource_type_def)
  from query_failure_tolerated_or_fatal [OF a n1, THEN conjunct1, rule_format, OF t1,
      THEN conjunct2]
  have a': "filter is_init
        (run_calls (capi_Up parse_30m query_fails_no_resource (capi_New default_opts)
           (start_state ())))
     = [Exec (Some 1800000000000) ''clusterctl'' [''init'', ''--infrastructure'', '''']]"
    by (simp add: init_args_def capi_New_simp)
  note b' = query_failure_tolerated_or_fatal [OF b n2, THEN conjunct2, rule_format, OF t2]
  from a n1 t1 a' b t2 b' [THEN conjunct1] b' [THEN conjunct2] show ?thesis
    by (intro conjI)
qed

text \<open>
  C5. The claim: every subprocess that \<open>Up\<close> starts carries the deadline made from
  \<open>up-timeout\<close>, the bootstrap create step included. The code in a run with the CNI
  install, call by call: \<open>kind create cluster\<close> (run by the kind deployer's \<open>Up\<close>
  through \<open>ExecJUnit\<close>) and \<open>clusterctl get kubeconfig\<close> (made by \<open>Kubeconfig\<close> with
  \<open>exec.Command\<close>) have no context; every other subprocess has the one of the timeout.
\<close>

theorem Up_runs_two_subprocesses_without_deadline:
  "run_calls (capi_Up parse_30m get_kubeconfig_ok
       ((capi_New default_opts)\<lparr>installCalico := True\<rparr>) (start_state ()))
   = [Exec None ''kind'' [''create'', ''cluster'', ''--name'', ''kind-kubetest2''],
      Output (Some 1800000000000) ''kubectl''
        [''get'', ''providers'', ''--all-namespaces'',
         ''--field-selector=metadata.name=infrastructure-'', ''--ignore-not-found''],
      Exec (Some 1800000000000) ''kubectl''
        [''wait'', ''--for=condition=Available'', ''--all'', ''--all-namespaces'',
         ''deployment'', ''--timeout=-1m''],
      StdoutPipe (Some 1800000000000) ''clusterctl''
        [''config'', ''cluster'', ''capi-workload-cluster'', ''--infrastructure'', '''',
         ''--kubernetes-version'', '''', ''--worker-machine-count'', ''1'',
         ''--control-plane-machine-count'', ''1'', ''--flavor'', ''''],
      Start (Some 1800000000000) ''clusterctl''
        [''config'', ''cluster'', ''capi-workload-cluster'', ''--infrastructure'', '''',
         ''--kubernetes-version'', '''', ''--worker-machine-count'', ''1'',
         ''--control-plane-machine-count'', ''1'', ''--flavor'', ''''],
      Start (Some 1800000000000) ''kubectl'' [''apply'', ''-f'', ''-''],
      Wait (Some 1800000000000) ''clusterctl''
        [''config'', ''cluster'', ''capi-workload-cluster'', ''--infrastructure'', '''',
         ''--kubernetes-version'', '''', ''--worker-machine-count'', ''1'',
         ''--control-plane-machine-count'', ''1'', ''--flavor'', ''''],
      Wait (Some 1800000000000) ''kubectl'' [''apply'', ''-f'', ''-''],
      Exec (Some 1800000000000) ''kubectl''
        [''wait'', ''--for=condition=Ready'', ''cluster/capi-workload-cluster'',
         ''--timeout=-1m''],
      TempDir '''' ''kubetest2-capi'',
      Output None ''clusterctl'' [''get'', ''kubeconfig'', ''capi-workload-cluster''],
      WriteFile ''/tmp/kubetest2-capi123/kubeconfig.yaml'' ''apiVersion: v1'' 384,
      Exec (Some 1800000000000) ''kubectl''
        [''--kubeconfig'', ''/tmp/kubetest2-capi123/kubeconfig.yaml'', ''apply'', ''-f'',
         ''https://docs.projectcalico.org/v3.12/manifests/calico.yaml''],
      Exec (Some 1800000000000) ''kubectl''
        [''--kubeconfig'', ''/tmp/kubetest2-capi123/kubeconfig.yaml'', ''wait'',
         ''--for=condition=Available'', ''--all'', ''--all-namespaces'', ''deployment'',
         ''--timeout=-1m'']]"
  by (simp add: run_defs get_kubeconfig_ok_def tmp_join)

end
